theory Spec2Isabelle
  imports Complex_Main "HOL-Library.Multiset" "HOL-Library.Log_Nat"
begin

section \<open>Numbers (binary64)\<close>

text \<open>
  A JavaScript \<open>number\<close> is an IEEE 754 binary64 value. The model writes a finite number
  as the real it denotes and rounds every arithmetic result to the nearest binary64
  value, ties to the even significand: \<open>round64 x\<close> is \<open>x\<close> rounded to 53 significant
  bits, or to a multiple of \<open>2 powi (- 1074)\<close> in the subnormal range. \<open>NaN\<close>, the
  infinities and the overflow of a result beyond the largest finite value are outside
  the model; the sign of zero is not kept.
\<close>

definition roundHalfEven :: "real \<Rightarrow> int" where
  "roundHalfEven y =
     (if y - of_int \<lfloor>y\<rfloor> < 1 / 2 then \<lfloor>y\<rfloor>
      else if 1 / 2 < y - of_int \<lfloor>y\<rfloor> then \<lfloor>y\<rfloor> + 1
      else if even \<lfloor>y\<rfloor> then \<lfloor>y\<rfloor> else \<lfloor>y\<rfloor> + 1)"

text \<open>The exponent of the unit in the last place of a magnitude \<open>a\<close>: the \<open>e\<close> with
  \<open>2 ^ 52 \<le> a / 2 powi e < 2 ^ 53\<close>, and \<open>- 1074\<close> below the normal range.\<close>

definition ulpExponent :: "real \<Rightarrow> int" where
  "ulpExponent a = max (bitlen \<lfloor>a * 2 ^ 1074\<rfloor> - 1127) (- 1074)"

definition round64 :: "real \<Rightarrow> real" where
  "round64 x =
     sgn x * (of_int (roundHalfEven (\<bar>x\<bar> / 2 powi ulpExponent \<bar>x\<bar>)) * 2 powi ulpExponent \<bar>x\<bar>)"

text \<open>The operators \<open>+\<close>, \<open>-\<close>, \<open>*\<close> and \<open>/\<close> of JavaScript on numbers.\<close>

definition fadd :: "real \<Rightarrow> real \<Rightarrow> real" where
  "fadd a b = round64 (a + b)"

definition fsub :: "real \<Rightarrow> real \<Rightarrow> real" where
  "fsub a b = round64 (a - b)"

definition fmul :: "real \<Rightarrow> real \<Rightarrow> real" where
  "fmul a b = round64 (a * b)"

definition fdiv :: "real \<Rightarrow> real \<Rightarrow> real" where
  "fdiv a b = round64 (a / b)"

section \<open>Data model (services/database/models.ts)\<close>

text \<open>
  A JavaScript \<open>Date\<close> is its time value: milliseconds since the epoch. The persisted
  form is JSON, where a date is its ISO-8601 string; \<open>new Date(t.date)\<close> reads the same
  time value back, so the model keeps the time value throughout. An amount or a budget
  limit is a binary64 number, written as the real it denotes.
\<close>

type_synonym Date = int

datatype TransactionType = income | expense

record Transaction =
  id_t :: string
  type_t :: TransactionType
  amount_t :: real
  category_t :: string
  description_t :: string
  notes_t :: string
  photos_t :: "string list"
  date_t :: Date
  tags_t :: "string list"
  createdAt_t :: Date
  updatedAt_t :: Date

text \<open>\<open>Omit<Transaction, 'id' | 'createdAt' | 'updatedAt'>\<close>: the argument of saveTransaction.\<close>

record TransactionDraft =
  type_d :: TransactionType
  amount_d :: real
  category_d :: string
  description_d :: string
  notes_d :: string
  photos_d :: "string list"
  date_d :: Date
  tags_d :: "string list"

text \<open>\<open>Partial<Transaction>\<close>: every field may be named or left out, \<open>id\<close> and the
  timestamps included.\<close>

record TransactionUpdates =
  id_u :: "string option"
  type_u :: "TransactionType option"
  amount_u :: "real option"
  category_u :: "string option"
  description_u :: "string option"
  notes_u :: "string option"
  photos_u :: "string list option"
  date_u :: "Date option"
  tags_u :: "string list option"
  createdAt_u :: "Date option"
  updatedAt_u :: "Date option"

record Category =
  id_c :: string
  name_c :: string
  type_c :: TransactionType
  color_c :: string
  icon_c :: string
  budgetLimit_c :: real

record Note =
  id_n :: string
  title_n :: string
  content_n :: string
  tags_n :: "string list"
  attachments_n :: "string list"
  transactionId_n :: "string option"
  createdAt_n :: Date
  updatedAt_n :: Date

datatype BudgetPeriod = weekly | monthly

record Budget =
  id_b :: string
  categoryId_b :: string
  amount_b :: real
  period_b :: BudgetPeriod
  startDate_b :: Date
  notifications_b :: bool

datatype Theme = light | dark | system

record AppSettings =
  currency :: string
  dateFormat :: string
  theme :: Theme
  notificationsEnabled :: bool
  budgetAlerts :: bool
  dailySummary :: bool

text \<open>\<open>Omit<Category, 'id'>\<close> rows of the two default tables, in the order of the source.\<close>

definition mkCategory :: "string \<Rightarrow> TransactionType \<Rightarrow> string \<Rightarrow> string \<Rightarrow> real \<Rightarrow> string \<Rightarrow> Category" where
  "mkCategory n ty col ic budget i =
     \<lparr>id_c = i, name_c = n, type_c = ty, color_c = col, icon_c = ic, budgetLimit_c = budget\<rparr>"

definition DEFAULT_INCOME_CATEGORIES :: "(string \<Rightarrow> Category) list" where
  "DEFAULT_INCOME_CATEGORIES =
    [mkCategory ''Salary'' income ''#16a34a'' ''briefcase'' 0,
     mkCategory ''Freelance'' income ''#059669'' ''laptop'' 0,
     mkCategory ''Investment'' income ''#0d9488'' ''trending-up'' 0,
     mkCategory ''Gift'' income ''#0891b2'' ''gift'' 0,
     mkCategory ''Other'' income ''#0284c7'' ''plus-circle'' 0]"

definition DEFAULT_EXPENSE_CATEGORIES :: "(string \<Rightarrow> Category) list" where
  "DEFAULT_EXPENSE_CATEGORIES =
    [mkCategory ''Food & Dining'' expense ''#dc2626'' ''utensils'' 500,
     mkCategory ''Transportation'' expense ''#ea580c'' ''car'' 200,
     mkCategory ''Shopping'' expense ''#d97706'' ''shopping-bag'' 300,
     mkCategory ''Entertainment'' expense ''#ca8a04'' ''film'' 150,
     mkCategory ''Bills & Utilities'' expense ''#65a30d'' ''file-text'' 400,
     mkCategory ''Healthcare'' expense ''#16a34a'' ''heart'' 200,
     mkCategory ''Education'' expense ''#0891b2'' ''book'' 100,
     mkCategory ''Travel'' expense ''#0284c7'' ''map-pin'' 300,
     mkCategory ''Other'' expense ''#7c3aed'' ''more-horizontal'' 100]"

section \<open>The persistence medium (AsyncStorage)\<close>

text \<open>
  What one storage key holds, as the service can observe it:
  \<^item> \<open>Absent\<close>: \<open>getItem\<close> resolves to \<open>null\<close>;
  \<^item> \<open>Blank\<close>: the empty string, which is falsy like \<open>null\<close>;
  \<^item> \<open>Corrupt\<close>: a non-empty text that \<open>JSON.parse\<close> rejects with a SyntaxError;
  \<^item> \<open>Json v\<close>: the text \<open>JSON.stringify(v)\<close>, which \<open>JSON.parse\<close> turns into \<open>v\<close> again.
  Each key holds values of its own kind only, as the TypeScript signatures assume.
\<close>

datatype 'a item = Absent | Blank | Corrupt | Json 'a

datatype storage_key =
  K_TRANSACTIONS | K_CATEGORIES | K_NOTES | K_BUDGETS | K_SETTINGS | K_INITIALIZED

record Storage =
  TRANSACTIONS :: "Transaction list item"
  CATEGORIES :: "Category list item"
  NOTES :: "Note list item"
  BUDGETS :: "Budget list item"
  SETTINGS :: "AppSettings item"
  INITIALIZED :: "string option"

text \<open>
  The behaviour of the medium while one operation of the service runs: which requests it
  rejects. A rejected request leaves the stored data as it was.
\<close>

record Medium =
  getItem_rejects :: "storage_key \<Rightarrow> bool"
  setItem_rejects :: "storage_key \<Rightarrow> bool"
  multiRemove_rejects :: bool

datatype error = StorageError | SyntaxError

definition getItem :: "Medium \<Rightarrow> storage_key \<Rightarrow> 'a \<Rightarrow> error + 'a" where
  "getItem m k held = (if getItem_rejects m k then Inl StorageError else Inr held)"

definition setItem :: "Medium \<Rightarrow> storage_key \<Rightarrow> Storage \<Rightarrow> error + Storage" where
  "setItem m k written = (if setItem_rejects m k then Inl StorageError else Inr written)"

text \<open>JavaScript truthiness of what \<open>getItem\<close> resolved to.\<close>

fun truthy :: "'a item \<Rightarrow> bool" where
  "truthy Absent = False"
| "truthy Blank = False"
| "truthy Corrupt = True"
| "truthy (Json v) = True"

fun JSON_parse :: "'a item \<Rightarrow> error + 'a" where
  "JSON_parse (Json v) = Inr v"
| "JSON_parse _ = Inl SyntaxError"

text \<open>The body shared by the four list reads:
  \<open>try { data = await getItem(key); return data ? JSON.parse(data) : [] } catch { return [] }\<close>.\<close>

definition readList :: "error + 'a list item \<Rightarrow> 'a list" where
  "readList got =
     (case got of
        Inl e \<Rightarrow> []
      | Inr data \<Rightarrow>
          if truthy data then (case JSON_parse data of Inl e \<Rightarrow> [] | Inr v \<Rightarrow> v) else [])"

section \<open>DatabaseService (services/database/storage.ts)\<close>

definition getTransactions :: "Medium \<Rightarrow> Storage \<Rightarrow> Transaction list" where
  "getTransactions m st = readList (getItem m K_TRANSACTIONS (TRANSACTIONS st))"

definition getCategories :: "Medium \<Rightarrow> Storage \<Rightarrow> Category list" where
  "getCategories m st = readList (getItem m K_CATEGORIES (CATEGORIES st))"

definition getNotes :: "Medium \<Rightarrow> Storage \<Rightarrow> Note list" where
  "getNotes m st = readList (getItem m K_NOTES (NOTES st))"

definition getBudgets :: "Medium \<Rightarrow> Storage \<Rightarrow> Budget list" where
  "getBudgets m st = readList (getItem m K_BUDGETS (BUDGETS st))"

definition getSettings :: "Medium \<Rightarrow> Storage \<Rightarrow> AppSettings option" where
  "getSettings m st =
     (case getItem m K_SETTINGS (SETTINGS st) of
        Inl e \<Rightarrow> None
      | Inr data \<Rightarrow>
          if truthy data then (case JSON_parse data of Inl e \<Rightarrow> None | Inr v \<Rightarrow> Some v)
          else None)"

text \<open>The reducer of getBalance and the method itself.\<close>

definition balanceStep :: "real \<Rightarrow> Transaction \<Rightarrow> real" where
  "balanceStep balance transaction =
     (if type_t transaction = income then fadd balance (amount_t transaction)
      else fsub balance (amount_t transaction))"

definition getBalance :: "Medium \<Rightarrow> Storage \<Rightarrow> real" where
  "getBalance m st = foldl balanceStep 0 (getTransactions m st)"

text \<open>
  What an operation takes from the runtime besides the medium: the readings of the
  system clock (\<open>Date.now()\<close>, \<open>new Date()\<close>), numbered in the order the operation
  makes them, and the random suffixes \<open>Math.random().toString(36).substr(2)\<close>.
\<close>

record Runtime =
  clock :: "nat \<Rightarrow> Date"
  randomSuffix :: "nat \<Rightarrow> string"

definition digit36 :: "nat \<Rightarrow> char" where
  "digit36 n = ''0123456789abcdefghijklmnopqrstuvwxyz'' ! n"

function digits36 :: "nat \<Rightarrow> string" where
  "digits36 n = (if n < 36 then [digit36 n] else digits36 (n div 36) @ [digit36 (n mod 36)])"
  by pat_completeness auto
termination
  by (relation "measure (\<lambda>n. n)") auto

declare digits36.simps [simp del]

definition toString36 :: "int \<Rightarrow> string" where
  "toString36 i = (if i < 0 then CHR ''-'' # digits36 (nat (- i)) else digits36 (nat i))"

text \<open>\<open>Date.now().toString(36) + Math.random().toString(36).substr(2)\<close>, at the k-th call.\<close>

definition generateId :: "Runtime \<Rightarrow> nat \<Rightarrow> string" where
  "generateId rt k = toString36 (clock rt k) @ randomSuffix rt k"

definition saveTransaction ::
  "Medium \<Rightarrow> Runtime \<Rightarrow> TransactionDraft \<Rightarrow> Storage \<Rightarrow> error + (Transaction \<times> Storage)" where
  "saveTransaction m rt transaction st =
     (let transactions = getTransactions m st;
          newTransaction =
            \<lparr>id_t = generateId rt 0,
             type_t = type_d transaction,
             amount_t = amount_d transaction,
             category_t = category_d transaction,
             description_t = description_d transaction,
             notes_t = notes_d transaction,
             photos_t = photos_d transaction,
             date_t = date_d transaction,
             tags_t = tags_d transaction,
             createdAt_t = clock rt 1,
             updatedAt_t = clock rt 2\<rparr>
      in case setItem m K_TRANSACTIONS
                (st\<lparr>TRANSACTIONS := Json (transactions @ [newTransaction])\<rparr>) of
           Inl e \<Rightarrow> Inl e
         | Inr st' \<Rightarrow> Inr (newTransaction, st'))"

text \<open>\<open>Array.prototype.findIndex\<close>; \<open>None\<close> stands for the result \<open>-1\<close>.\<close>

fun findIndex :: "('a \<Rightarrow> bool) \<Rightarrow> 'a list \<Rightarrow> nat option" where
  "findIndex P [] = None"
| "findIndex P (x # xs) = (if P x then Some 0 else map_option Suc (findIndex P xs))"

text \<open>One field of \<open>{ ...transactions[index], ...updates }\<close>: a field that \<open>updates\<close>
  names replaces the entity's.\<close>

definition spreadField :: "'a \<Rightarrow> 'a option \<Rightarrow> 'a" where
  "spreadField old named = (case named of None \<Rightarrow> old | Some v \<Rightarrow> v)"

text \<open>\<open>{ ...transactions[index], ...updates, updatedAt: new Date() }\<close>.\<close>

definition spreadUpdates :: "Transaction \<Rightarrow> TransactionUpdates \<Rightarrow> Date \<Rightarrow> Transaction" where
  "spreadUpdates t updates now =
     \<lparr>id_t = spreadField (id_t t) (id_u updates),
      type_t = spreadField (type_t t) (type_u updates),
      amount_t = spreadField (amount_t t) (amount_u updates),
      category_t = spreadField (category_t t) (category_u updates),
      description_t = spreadField (description_t t) (description_u updates),
      notes_t = spreadField (notes_t t) (notes_u updates),
      photos_t = spreadField (photos_t t) (photos_u updates),
      date_t = spreadField (date_t t) (date_u updates),
      tags_t = spreadField (tags_t t) (tags_u updates),
      createdAt_t = spreadField (createdAt_t t) (createdAt_u updates),
      updatedAt_t = now\<rparr>"

definition updateTransaction ::
  "Medium \<Rightarrow> Runtime \<Rightarrow> string \<Rightarrow> TransactionUpdates \<Rightarrow> Storage \<Rightarrow> error + Storage" where
  "updateTransaction m rt ident updates st =
     (let transactions = getTransactions m st
      in case findIndex (\<lambda>t. id_t t = ident) transactions of
           None \<Rightarrow> Inr st
         | Some index \<Rightarrow>
             setItem m K_TRANSACTIONS
               (st\<lparr>TRANSACTIONS :=
                    Json (transactions
                            [index := spreadUpdates (transactions ! index) updates (clock rt 0)])\<rparr>))"

definition deleteTransaction :: "Medium \<Rightarrow> string \<Rightarrow> Storage \<Rightarrow> error + Storage" where
  "deleteTransaction m ident st =
     (let transactions = getTransactions m st;
          filtered = filter (\<lambda>t. id_t t \<noteq> ident) transactions
      in setItem m K_TRANSACTIONS (st\<lparr>TRANSACTIONS := Json filtered\<rparr>))"

definition saveCategories :: "Medium \<Rightarrow> Category list \<Rightarrow> Storage \<Rightarrow> error + Storage" where
  "saveCategories m categories st = setItem m K_CATEGORIES (st\<lparr>CATEGORIES := Json categories\<rparr>)"

definition saveSettings :: "Medium \<Rightarrow> AppSettings \<Rightarrow> Storage \<Rightarrow> error + Storage" where
  "saveSettings m settings st = setItem m K_SETTINGS (st\<lparr>SETTINGS := Json settings\<rparr>)"

text \<open>\<open>table.map(cat => ({ ...cat, id: this.generateId() }))\<close>, the first call to
  generateId being the k-th of the operation.\<close>

definition withIds :: "Runtime \<Rightarrow> nat \<Rightarrow> (string \<Rightarrow> Category) list \<Rightarrow> Category list" where
  "withIds rt k table = map (\<lambda>(i, cat). cat (generateId rt i)) (enumerate k table)"

definition defaultCategories :: "Runtime \<Rightarrow> Category list" where
  "defaultCategories rt =
     withIds rt 0 DEFAULT_INCOME_CATEGORIES
     @ withIds rt (length DEFAULT_INCOME_CATEGORIES) DEFAULT_EXPENSE_CATEGORIES"

definition defaultSettings :: AppSettings where
  "defaultSettings =
     \<lparr>currency = ''USD'', dateFormat = ''MM/DD/YYYY'', theme = system,
      notificationsEnabled = True, budgetAlerts = True, dailySummary = True\<rparr>"

text \<open>Truthiness of the marker string (\<open>null\<close> and the empty string are falsy).\<close>

definition truthyString :: "string option \<Rightarrow> bool" where
  "truthyString s = (case s of None \<Rightarrow> False | Some txt \<Rightarrow> txt \<noteq> [])"

text \<open>initialize catches every error and returns nothing: the result is the storage it
  leaves behind, with the writes made before a rejected request kept.\<close>

definition initialize :: "Medium \<Rightarrow> Runtime \<Rightarrow> Storage \<Rightarrow> Storage" where
  "initialize m rt st =
     (case getItem m K_INITIALIZED (INITIALIZED st) of
        Inl e \<Rightarrow> st
      | Inr isInitialized \<Rightarrow>
          if \<not> truthyString isInitialized then
            (case saveCategories m (defaultCategories rt) st of
               Inl e \<Rightarrow> st
             | Inr st1 \<Rightarrow>
                 (case saveSettings m defaultSettings st1 of
                    Inl e \<Rightarrow> st1
                  | Inr st2 \<Rightarrow>
                      (case setItem m K_INITIALIZED (st2\<lparr>INITIALIZED := Some ''true''\<rparr>) of
                         Inl e \<Rightarrow> st2
                       | Inr st3 \<Rightarrow> st3)))
          else st)"

text \<open>\<open>AsyncStorage.multiRemove\<close> of the six keys.\<close>

definition clearAll :: "Medium \<Rightarrow> Storage \<Rightarrow> error + Storage" where
  "clearAll m st =
     (if multiRemove_rejects m then Inl StorageError
      else Inr (st\<lparr>TRANSACTIONS := Absent, CATEGORIES := Absent, NOTES := Absent,
                   BUDGETS := Absent, SETTINGS := Absent, INITIALIZED := None\<rparr>))"

section \<open>Calendar arithmetic of the JavaScript Date\<close>

text \<open>
  The calendar fields of a Date are those of local time. The model takes a local time
  zone of constant offset, and then, without loss of generality, offset zero: a time
  value is \<open>msPerDay\<close> times the day number since 1970-01-01 plus the time of day.
  The day number of a proleptic Gregorian date and its inverse:
\<close>

definition msPerDay :: int where
  "msPerDay = 24 * 60 * 60 * 1000"

definition daysFromCivil :: "int \<Rightarrow> int \<Rightarrow> int \<Rightarrow> int" where
  "daysFromCivil y m d =
     (let y' = (if m \<le> 2 then y - 1 else y);
          era = y' div 400;
          yoe = y' - era * 400;
          doy = (153 * (if m > 2 then m - 3 else m + 9) + 2) div 5 + d - 1;
          doe = yoe * 365 + yoe div 4 - yoe div 100 + doy
      in era * 146097 + doe - 719468)"

definition civilFromDays :: "int \<Rightarrow> int \<times> int \<times> int" where
  "civilFromDays z =
     (let z' = z + 719468;
          era = z' div 146097;
          doe = z' - era * 146097;
          yoe = (doe - doe div 1460 + doe div 36524 - doe div 146096) div 365;
          doy = doe - (365 * yoe + yoe div 4 - yoe div 100);
          mp = (5 * doy + 2) div 153;
          d = doy - (153 * mp + 2) div 5 + 1;
          m = (if mp < 10 then mp + 3 else mp - 9);
          y = yoe + era * 400
      in (if m \<le> 2 then y + 1 else y, m, d))"

text \<open>\<open>new Date(year, monthIndex, day)\<close>: local midnight of that day; a month index
  outside 0..11 carries into the year and a day outside the month into the neighbouring
  months; a year in 0..99 means 1900 + year.\<close>

definition newDate :: "int \<Rightarrow> int \<Rightarrow> int \<Rightarrow> Date" where
  "newDate y monthIndex d =
     (let y0 = (if 0 \<le> y \<and> y \<le> 99 then 1900 + y else y);
          y' = y0 + monthIndex div 12;
          m' = monthIndex mod 12
      in (daysFromCivil y' (m' + 1) 1 + (d - 1)) * msPerDay)"

definition getFullYear :: "Date \<Rightarrow> int" where
  "getFullYear t = fst (civilFromDays (t div msPerDay))"

definition getMonth :: "Date \<Rightarrow> int" where
  "getMonth t = fst (snd (civilFromDays (t div msPerDay))) - 1"

text \<open>\<open>date.toLocaleDateString('en-US', { month: 'short' })\<close>.\<close>

definition monthShort :: "Date \<Rightarrow> string" where
  "monthShort t =
     [''Jan'', ''Feb'', ''Mar'', ''Apr'', ''May'', ''Jun'',
      ''Jul'', ''Aug'', ''Sep'', ''Oct'', ''Nov'', ''Dec''] ! nat (getMonth t)"

section \<open>calculateAnalytics (app/(tabs)/reports.tsx)\<close>

datatype PeriodType = week | month | year

record CategoryData =
  name_cd :: string
  amount_cd :: real
  color_cd :: string
  percentage_cd :: real

record MonthlyData =
  month_md :: string
  income_md :: real
  expenses_md :: real

definition startDate :: "PeriodType \<Rightarrow> Date \<Rightarrow> Date" where
  "startDate period now =
     (case period of
        week \<Rightarrow> now - 7 * 24 * 60 * 60 * 1000
      | month \<Rightarrow> newDate (getFullYear now) (getMonth now) 1
      | year \<Rightarrow> newDate (getFullYear now) 0 1)"

definition periodTransactions :: "PeriodType \<Rightarrow> Date \<Rightarrow> Transaction list \<Rightarrow> Transaction list" where
  "periodTransactions period now allTransactions =
     filter (\<lambda>t. startDate period now \<le> date_t t \<and> date_t t \<le> now) allTransactions"

text \<open>\<open>.reduce((sum, t) => sum + t.amount, 0)\<close>.\<close>

definition sumAmounts :: "Transaction list \<Rightarrow> real" where
  "sumAmounts ts = foldl (\<lambda>sum t. fadd sum (amount_t t)) 0 ts"

definition totalOfType :: "TransactionType \<Rightarrow> Transaction list \<Rightarrow> real" where
  "totalOfType ty ts = sumAmounts (filter (\<lambda>t. type_t t = ty) ts)"

text \<open>A JavaScript \<open>Map<string, number>\<close> as an association list in insertion order:
  \<open>set\<close> overwrites the value of a key already there and appends a new key at the end.\<close>

fun Map_set :: "string \<Rightarrow> real \<Rightarrow> (string \<times> real) list \<Rightarrow> (string \<times> real) list" where
  "Map_set k v [] = [(k, v)]"
| "Map_set k v ((k', v') # kvs) =
     (if k' = k then (k, v) # kvs else (k', v') # Map_set k v kvs)"

text \<open>\<open>categoryBreakdown.get(key) || 0\<close>: a missing key reads as 0 (and a stored 0 as 0).\<close>

definition Map_get_or_0 :: "(string \<times> real) list \<Rightarrow> string \<Rightarrow> real" where
  "Map_get_or_0 kvs k = (case map_of kvs k of None \<Rightarrow> 0 | Some v \<Rightarrow> v)"

definition categoryBreakdown :: "Transaction list \<Rightarrow> (string \<times> real) list" where
  "categoryBreakdown periodTs =
     foldl (\<lambda>breakdown t.
              Map_set (category_t t)
                (fadd (Map_get_or_0 breakdown (category_t t)) (amount_t t)) breakdown)
       [] (filter (\<lambda>t. type_t t = expense) periodTs)"

text \<open>\<open>category?.color || '#666'\<close>: the fallback also replaces an empty color string.\<close>

definition colorOf :: "Category list \<Rightarrow> string \<Rightarrow> string" where
  "colorOf allCategories categoryName =
     (case find (\<lambda>c. name_c c = categoryName) allCategories of
        None \<Rightarrow> ''#666''
      | Some category \<Rightarrow> if color_c category = [] then ''#666'' else color_c category)"

definition toCategoryData :: "Category list \<Rightarrow> real \<Rightarrow> string \<times> real \<Rightarrow> CategoryData" where
  "toCategoryData allCategories expenses entry =
     (case entry of (categoryName, amount) \<Rightarrow>
        \<lparr>name_cd = categoryName,
         amount_cd = amount,
         color_cd = colorOf allCategories categoryName,
         percentage_cd = (if expenses > 0 then fmul (fdiv amount expenses) 100 else 0)\<rparr>)"

text \<open>\<open>.sort((a, b) => b.amount - a.amount)\<close>: the sort is stable, and the rounded
  difference of two binary64 numbers has the sign of their exact difference, so it is
  the stable sort on the negated amount.\<close>

definition categoryDataArray ::
  "PeriodType \<Rightarrow> Date \<Rightarrow> Transaction list \<Rightarrow> Category list \<Rightarrow> CategoryData list" where
  "categoryDataArray period now allTransactions allCategories =
     (let periodTs = periodTransactions period now allTransactions;
          expenses = totalOfType expense periodTs
      in sort_key (\<lambda>d. - amount_cd d)
           (map (toCategoryData allCategories expenses) (categoryBreakdown periodTs)))"

text \<open>The body of the loop \<open>for (let i = 5; i >= 0; i--)\<close> and the loop itself.\<close>

definition monthPoint :: "Transaction list \<Rightarrow> Date \<Rightarrow> nat \<Rightarrow> MonthlyData" where
  "monthPoint allTransactions now i =
     (let date = newDate (getFullYear now) (getMonth now - int i) 1;
          monthStart = newDate (getFullYear date) (getMonth date) 1;
          monthEnd = newDate (getFullYear date) (getMonth date + 1) 0;
          monthTransactions =
            filter (\<lambda>t. monthStart \<le> date_t t \<and> date_t t \<le> monthEnd) allTransactions
      in \<lparr>month_md = monthShort date,
          income_md = totalOfType income monthTransactions,
          expenses_md = totalOfType expense monthTransactions\<rparr>)"

fun trendLoop :: "Transaction list \<Rightarrow> Date \<Rightarrow> nat \<Rightarrow> MonthlyData list" where
  "trendLoop allTransactions now 0 = [monthPoint allTransactions now 0]"
| "trendLoop allTransactions now (Suc i) =
     monthPoint allTransactions now (Suc i) # trendLoop allTransactions now i"

definition monthlyTrend :: "Transaction list \<Rightarrow> Date \<Rightarrow> MonthlyData list" where
  "monthlyTrend allTransactions now = trendLoop allTransactions now 5"

record Analytics =
  totalIncome :: real
  totalExpenses :: real
  categoryData :: "CategoryData list"
  topCategories :: "CategoryData list"
  monthlyData :: "MonthlyData list"

definition calculateAnalytics ::
  "PeriodType \<Rightarrow> Date \<Rightarrow> Transaction list \<Rightarrow> Category list \<Rightarrow> Analytics" where
  "calculateAnalytics period now allTransactions allCategories =
     (let periodTs = periodTransactions period now allTransactions;
          arr = categoryDataArray period now allTransactions allCategories
      in \<lparr>totalIncome = totalOfType income periodTs,
          totalExpenses = totalOfType expense periodTs,
          categoryData = arr,
          topCategories = take 5 arr,
          monthlyData = monthlyTrend allTransactions now\<rparr>)"

section \<open>Budget alerts (services/notifications/notificationService.ts)\<close>

text \<open>The content handed to \<open>Notifications.scheduleNotificationAsync\<close>: which of the two
  titles, the category in \<open>data\<close>, and the numbers the body prints (the excess for an
  exceeded budget; the percentage, the spending and the limit for a warning).\<close>

datatype BudgetNotification =
    BudgetExceeded string real
  | BudgetWarning string real real real

text \<open>The result is the list of notifications scheduled by the call: none or one.
  (A limit of 0, where the quotient is not finite, does not reach this function: the
  caller passes limits above 0 only.)\<close>

definition scheduleBudgetAlert ::
  "Medium \<Rightarrow> Storage \<Rightarrow> string \<Rightarrow> real \<Rightarrow> real \<Rightarrow> BudgetNotification list" where
  "scheduleBudgetAlert m st categoryName currentSpent budgetLimit =
     (case getSettings m st of
        None \<Rightarrow> []
      | Some settings \<Rightarrow>
          if \<not> notificationsEnabled settings \<or> \<not> budgetAlerts settings then []
          else
            (let percentage = fmul (fdiv currentSpent budgetLimit) 100
             in if percentage \<ge> 100 then
                  [BudgetExceeded categoryName (fsub currentSpent budgetLimit)]
                else if percentage \<ge> 80 then
                  [BudgetWarning categoryName percentage currentSpent budgetLimit]
                else []))"

text \<open>Whether the gate at the head of scheduleBudgetAlert lets an alert through: the settings
  are stored and readable, and both switches are on.\<close>

definition alertsEnabled :: "Medium \<Rightarrow> Storage \<Rightarrow> bool" where
  "alertsEnabled m st =
     (case getSettings m st of
        None \<Rightarrow> False
      | Some settings \<Rightarrow> notificationsEnabled settings \<and> budgetAlerts settings)"

definition monthlySpent :: "Transaction list \<Rightarrow> Date \<Rightarrow> Category \<Rightarrow> real" where
  "monthlySpent transactions currentDate category =
     sumAmounts
       (filter (\<lambda>t. type_t t = expense \<and>
                     category_t t = name_c category \<and>
                     getMonth (date_t t) = getMonth currentDate \<and>
                     getFullYear (date_t t) = getFullYear currentDate)
          transactions)"

definition checkBudgetAlerts :: "Medium \<Rightarrow> Date \<Rightarrow> Storage \<Rightarrow> BudgetNotification list" where
  "checkBudgetAlerts m currentDate st =
     (let transactions = getTransactions m st;
          categories = getCategories m st
      in concat
           (map (\<lambda>category.
                   if budgetLimit_c category > 0 then
                     (let spent = monthlySpent transactions currentDate category
                      in if spent \<ge> fmul (budgetLimit_c category) (round64 (8 / 10)) then
                           scheduleBudgetAlert m st (name_c category) spent
                             (budgetLimit_c category)
                         else [])
                   else [])
              categories))"

section \<open>Example data\<close>

text \<open>A medium that rejects nothing, a runtime, and the scenario of the specification:
  two Food expenses of 50 and 30 and a Salary income of 1000, with one Food category.
  The time values are 2024-03-15 12:00 (the clock), 2024-03-10, 2024-03-12 and
  2024-03-01 at 09:00.\<close>

definition healthy :: Medium where
  "healthy = \<lparr>getItem_rejects = (\<lambda>k. False), setItem_rejects = (\<lambda>k. False),
              multiRemove_rejects = False\<rparr>"

definition exampleRuntime :: Runtime where
  "exampleRuntime = \<lparr>clock = (\<lambda>k. 1710504000000 + int k), randomSuffix = (\<lambda>k. ''k3j9x2'')\<rparr>"

definition emptyStorage :: Storage where
  "emptyStorage = \<lparr>TRANSACTIONS = Absent, CATEGORIES = Absent, NOTES = Absent,
                    BUDGETS = Absent, SETTINGS = Absent, INITIALIZED = None\<rparr>"

definition lunch :: Transaction where
  "lunch = \<lparr>id_t = ''t1'', type_t = expense, amount_t = 50, category_t = ''Food'',
            description_t = ''lunch'', notes_t = [], photos_t = [],
            date_t = 1710061200000, tags_t = [],
            createdAt_t = 1710061200000, updatedAt_t = 1710061200000\<rparr>"

definition groceries :: Transaction where
  "groceries = \<lparr>id_t = ''t2'', type_t = expense, amount_t = 30, category_t = ''Food'',
            description_t = ''groceries'', notes_t = [], photos_t = [],
            date_t = 1710234000000, tags_t = [],
            createdAt_t = 1710234000000, updatedAt_t = 1710234000000\<rparr>"

definition salary :: Transaction where
  "salary = \<lparr>id_t = ''t3'', type_t = income, amount_t = 1000, category_t = ''Salary'',
            description_t = ''march'', notes_t = [], photos_t = [],
            date_t = 1709283600000, tags_t = [],
            createdAt_t = 1709283600000, updatedAt_t = 1709283600000\<rparr>"

definition foodCategory :: Category where
  "foodCategory = mkCategory ''Food'' expense ''#dc2626'' ''utensils'' 100 ''c1''"

definition exampleStorage :: Storage where
  "exampleStorage = \<lparr>TRANSACTIONS = Json [lunch, groceries, salary],
                      CATEGORIES = Json [foodCategory], NOTES = Absent, BUDGETS = Absent,
                      SETTINGS = Json defaultSettings, INITIALIZED = Some ''true''\<rparr>"

definition noUpdates :: TransactionUpdates where
  "noUpdates = \<lparr>id_u = None, type_u = None, amount_u = None, category_u = None,
                description_u = None, notes_u = None, photos_u = None, date_u = None,
                tags_u = None, createdAt_u = None, updatedAt_u = None\<rparr>"

definition coffee :: TransactionDraft where
  "coffee = \<lparr>type_d = expense, amount_d = 4, category_d = ''Food'',
             description_d = ''coffee'', notes_d = [], photos_d = [],
             date_d = 1710493200000, tags_d = []\<rparr>"

text \<open>Two media that fail: one rejects every read request, one every write request.\<close>

definition rejectingReads :: Medium where
  "rejectingReads = \<lparr>getItem_rejects = (\<lambda>k. True), setItem_rejects = (\<lambda>k. False),
                     multiRemove_rejects = False\<rparr>"

definition rejectingWrites :: Medium where
  "rejectingWrites = \<lparr>getItem_rejects = (\<lambda>k. False), setItem_rejects = (\<lambda>k. True),
                      multiRemove_rejects = True\<rparr>"

text \<open>The entity that saving the draft \<open>coffee\<close> creates under \<open>exampleRuntime\<close>.\<close>

definition coffeeSaved :: Transaction where
  "coffeeSaved = \<lparr>id_t = ''ltslx1c0k3j9x2'', type_t = expense, amount_t = 4,
                  category_t = ''Food'', description_t = ''coffee'', notes_t = [],
                  photos_t = [], date_t = 1710493200000, tags_t = [],
                  createdAt_t = 1710504000001, updatedAt_t = 1710504000002\<rparr>"

text \<open>The example storage with the budget alerts switched off in the settings.\<close>

definition alertsOffStorage :: Storage where
  "alertsOffStorage = exampleStorage\<lparr>SETTINGS := Json (defaultSettings\<lparr>budgetAlerts := False\<rparr>)\<rparr>"

text \<open>An expense entered on the last day of February 2024, at 10:00 (the entry form
  stamps a transaction with the current date and time).\<close>

definition leapDayLunch :: Transaction where
  "leapDayLunch = \<lparr>id_t = ''t5'', type_t = expense, amount_t = 50, category_t = ''Food'',
             description_t = ''lunch'', notes_t = [], photos_t = [],
             date_t = 1709200800000, tags_t = [],
             createdAt_t = 1709200800000, updatedAt_t = 1709200800000\<rparr>"

text \<open>Three incomes of 0.1, 0.2 and 0.3: each amount is the binary64 value of its
  decimal literal.\<close>

definition income01 :: Transaction where
  "income01 = \<lparr>id_t = ''t6'', type_t = income, amount_t = round64 (1 / 10),
               category_t = ''Other'', description_t = ''interest'', notes_t = [],
               photos_t = [], date_t = 1710234000000, tags_t = [],
               createdAt_t = 1710234000000, updatedAt_t = 1710234000000\<rparr>"

definition income02 :: Transaction where
  "income02 = \<lparr>id_t = ''t7'', type_t = income, amount_t = round64 (2 / 10),
               category_t = ''Other'', description_t = ''interest'', notes_t = [],
               photos_t = [], date_t = 1710234000000, tags_t = [],
               createdAt_t = 1710234000000, updatedAt_t = 1710234000000\<rparr>"

definition income03 :: Transaction where
  "income03 = \<lparr>id_t = ''t8'', type_t = income, amount_t = round64 (3 / 10),
               category_t = ''Other'', description_t = ''interest'', notes_t = [],
               photos_t = [], date_t = 1710234000000, tags_t = [],
               createdAt_t = 1710234000000, updatedAt_t = 1710234000000\<rparr>"

section \<open>Binary64 rounding\<close>

text \<open>The exponent that \<open>ulpExponent\<close> computes is the one that brackets the magnitude,
  which gives the rounding of a concrete number by one division and one floor.\<close>

lemma bitlen_eqI:
  assumes "2 ^ n \<le> N" and "N < 2 ^ Suc n"
  shows "bitlen N = int n + 1"
proof (rule antisym)
  show "bitlen N \<le> int n + 1"
    using assms(2) by (simp add: bitlen_le_iff_power nat_add_distrib)
  show "int n + 1 \<le> bitlen N"
    using assms(1) by (simp add: bitlen_ge_iff_power nat_add_distrib)
qed

lemma ulpExponent_eq:
  assumes lo: "2 ^ 52 \<le> a / 2 powi e" and hi: "a / 2 powi e < 2 ^ 53" and e: "- 1074 \<le> e"
  shows "ulpExponent a = e"
proof -
  define k where "k = nat (e + 1074)"
  have ke: "int k = e + 1074"
    using e by (simp add: k_def)
  have pos: "(0::real) < 2 powi e"
    by simp
  have scale: "(2::real) powi e * 2 ^ 1074 = 2 ^ k"
  proof -
    have "(2::real) powi e * 2 ^ 1074 = 2 powi e * 2 powi 1074"
      by simp
    also have "\<dots> = 2 powi (e + 1074)"
      by (simp add: power_int_add)
    also have "\<dots> = 2 powi (int k)"
      by (simp only: ke)
    finally show ?thesis
      by simp
  qed
  from lo pos have "2 ^ 52 * 2 powi e \<le> a"
    by (simp add: pos_le_divide_eq)
  then have "2 ^ 52 * (2 powi e * 2 ^ 1074) \<le> a * 2 ^ 1074"
    by simp
  then have lo': "(2::real) ^ (52 + k) \<le> a * 2 ^ 1074"
    by (simp only: scale power_add)
  from hi pos have "a < 2 ^ 53 * 2 powi e"
    by (simp add: pos_divide_less_eq)
  then have "a * 2 ^ 1074 < 2 ^ 53 * (2 powi e * 2 ^ 1074)"
    by simp
  then have hi': "a * 2 ^ 1074 < (2::real) ^ (53 + k)"
    by (simp only: scale power_add)
  have "(2::int) ^ (52 + k) \<le> \<lfloor>a * 2 ^ 1074\<rfloor>"
    using lo' by (simp add: le_floor_iff)
  moreover have "\<lfloor>a * 2 ^ 1074\<rfloor> < (2::int) ^ Suc (52 + k)"
    using hi' by (simp add: floor_less_iff)
  ultimately have "bitlen \<lfloor>a * 2 ^ 1074\<rfloor> = int (52 + k) + 1"
    by (rule bitlen_eqI)
  then show ?thesis
    using e by (simp add: ulpExponent_def ke)
qed

lemma round64_eval:
  assumes "2 ^ 52 \<le> a / 2 powi e" and "a / 2 powi e < 2 ^ 53" and "- 1074 \<le> e"
  shows "round64 a = of_int (roundHalfEven (a / 2 powi e)) * 2 powi e"
    and "round64 (- a) = - (of_int (roundHalfEven (a / 2 powi e)) * 2 powi e)"
proof -
  have "(0::real) < 2 ^ 52"
    by simp
  with assms(1) have "0 < a / 2 powi e"
    by linarith
  moreover have "(0::real) < 2 powi e"
    by simp
  ultimately have a: "0 < a"
    by (simp add: zero_less_divide_iff)
  show "round64 a = of_int (roundHalfEven (a / 2 powi e)) * 2 powi e"
    using a by (simp add: round64_def ulpExponent_eq [OF assms])
  show "round64 (- a) = - (of_int (roundHalfEven (a / 2 powi e)) * 2 powi e)"
    using a by (simp add: round64_def ulpExponent_eq [OF assms])
qed

lemma round64_0 [simp]: "round64 0 = 0"
  by (simp add: round64_def)

lemma round64_minus: "round64 (- x) = - round64 x"
  by (simp add: round64_def sgn_minus)

lemma roundHalfEven_of_int [simp]: "roundHalfEven (of_int n) = n"
  by (simp add: roundHalfEven_def)

lemma roundHalfEven_nonneg: "0 \<le> y \<Longrightarrow> 0 \<le> roundHalfEven y"
  by (simp add: roundHalfEven_def)

lemma round64_nonneg: "0 \<le> x \<Longrightarrow> 0 \<le> round64 x"
  by (simp add: round64_def sgn_real_def roundHalfEven_nonneg)

text \<open>Whole numbers up to \<open>2 ^ 53\<close> in magnitude are binary64 values, so their sums and
  differences are exact as long as they stay in that range.\<close>

lemma round64_of_int_pos:
  assumes "0 < n" and "n \<le> 2 ^ 53"
  shows "round64 (of_int n) = of_int n"
proof (cases "n = 2 ^ 53")
  case True
  show ?thesis
    unfolding True by (simp add: round64_eval(1) [where e = 1] roundHalfEven_def)
next
  case False
  with assms(2) have less: "n < 2 ^ 53"
    by simp
  define b where "b = bitlen n"
  from bitlen_bounds [OF assms(1)] have bnd: "2 ^ nat (b - 1) \<le> n" "n < 2 ^ nat b"
    by (simp_all add: b_def)
  have b1: "1 \<le> b"
    using assms(1) by (simp add: b_def bitlen_ge_iff_power)
  have b53: "b \<le> 53"
    using less by (simp add: b_def bitlen_le_iff_power)
  define j where "j = nat (53 - b)"
  have split52: "nat (b - 1) + j = 52" and split53: "nat b + j = 53"
    using b1 b53 by (simp_all add: j_def)
  have "(2::int) ^ 52 = 2 ^ nat (b - 1) * 2 ^ j"
    by (simp only: split52 flip: power_add)
  also have "\<dots> \<le> n * 2 ^ j"
    using bnd(1) by simp
  finally have lo: "(2::int) ^ 52 \<le> n * 2 ^ j" .
  have "n * 2 ^ j < 2 ^ nat b * 2 ^ j"
    using bnd(2) by simp
  also have "\<dots> = (2::int) ^ 53"
    by (simp only: split53 flip: power_add)
  finally have hi: "n * 2 ^ j < (2::int) ^ 53" .
  have scaled: "real_of_int n / 2 powi (- int j) = of_int (n * 2 ^ j)"
    by (simp add: power_int_minus field_simps)
  have "round64 (of_int n) = of_int (roundHalfEven (real_of_int n / 2 powi (- int j))) * 2 powi (- int j)"
  proof (rule round64_eval(1))
    have "(2::real) ^ 52 = of_int (2 ^ 52)"
      by simp
    also have "\<dots> \<le> of_int (n * 2 ^ j)"
      using lo by (simp only: of_int_le_iff)
    finally show "2 ^ 52 \<le> real_of_int n / 2 powi (- int j)"
      by (simp only: scaled)
    have "real_of_int (n * 2 ^ j) < of_int (2 ^ 53)"
      using hi by (simp only: of_int_less_iff)
    then show "real_of_int n / 2 powi (- int j) < 2 ^ 53"
      by (simp only: scaled) simp
    show "- 1074 \<le> - int j"
      using b1 by (simp add: j_def)
  qed
  also have "\<dots> = of_int (n * 2 ^ j) * 2 powi (- int j)"
    by (simp only: scaled roundHalfEven_of_int)
  also have "\<dots> = of_int n"
    by (simp add: power_int_minus field_simps)
  finally show ?thesis .
qed

lemma round64_of_int:
  assumes "\<bar>n\<bar> \<le> 2 ^ 53"
  shows "round64 (of_int n) = of_int n"
proof -
  consider "n = 0" | "0 < n" | "n < 0" by linarith
  then show ?thesis
  proof cases
    case 1
    then show ?thesis by simp
  next
    case 2
    with assms show ?thesis by (simp add: round64_of_int_pos)
  next
    case 3
    with assms have "round64 (of_int (- n)) = of_int (- n)"
      by (intro round64_of_int_pos) simp_all
    then show ?thesis
      by (simp add: round64_minus)
  qed
qed

lemma round64_numeral [simp]:
  "numeral k \<le> (2::int) ^ 53 \<Longrightarrow> round64 (numeral k) = numeral k"
  using round64_of_int [of "numeral k"] by simp

lemma round64_1 [simp]: "round64 1 = 1"
  using round64_of_int [of 1] by simp

lemma round64_Ints:
  assumes "x \<in> \<int>" and "\<bar>x\<bar> \<le> 2 ^ 53"
  shows "round64 x = x"
proof -
  from assms(1) obtain n where n: "x = of_int n"
    by (auto elim: Ints_cases)
  have "real_of_int \<bar>n\<bar> \<le> of_int (2 ^ 53)"
    using assms(2) by (simp add: n)
  then have "\<bar>n\<bar> \<le> 2 ^ 53"
    by (simp only: of_int_le_iff)
  then show ?thesis
    by (simp only: n round64_of_int)
qed

lemma foldl_fadd_nonneg:
  "0 \<le> b \<Longrightarrow> \<forall>x \<in> set xs. 0 \<le> x \<Longrightarrow> 0 \<le> foldl fadd b xs"
proof (induction xs arbitrary: b)
  case Nil
  then show ?case by simp
next
  case (Cons x xs)
  have "0 \<le> fadd b x"
    using Cons.prems by (simp add: fadd_def round64_nonneg)
  with Cons.prems show ?case
    by (simp add: Cons.IH)
qed

lemma foldl_fadd_exact:
  assumes "b \<in> \<int>" and "0 \<le> b" and "\<forall>x \<in> set xs. x \<in> \<int> \<and> 0 \<le> x"
    and "b + sum_list xs \<le> 2 ^ 53"
  shows "foldl fadd b xs = b + sum_list xs"
  using assms
proof (induction xs arbitrary: b)
  case Nil
  then show ?case by simp
next
  case (Cons x xs)
  have rest: "0 \<le> sum_list xs"
    using Cons.prems(3) by (simp add: sum_list_nonneg)
  have x: "x \<in> \<int>" "0 \<le> x"
    using Cons.prems(3) by simp_all
  have "\<bar>b + x\<bar> \<le> 2 ^ 53"
    using Cons.prems(2,4) x(2) rest by simp
  then have step: "fadd b x = b + x"
    using Cons.prems(1) x(1) by (simp add: fadd_def round64_Ints)
  have "foldl fadd (b + x) xs = b + x + sum_list xs"
    using Cons.prems x by (intro Cons.IH) (simp_all add: add.assoc)
  then show ?case
    by (simp add: step add.assoc)
qed

subsection \<open>Rounding is monotone\<close>

text \<open>Rounding to the nearest binary64 value keeps the order of the reals. The comparisons
  of the program are therefore decided by the unrounded quantities wherever these lie on one
  side of a binary64 value.\<close>

lemma roundHalfEven_bounds:
  "of_int (roundHalfEven y) \<le> y + 1 / 2" "y - 1 / 2 \<le> of_int (roundHalfEven y)"
  "\<lfloor>y\<rfloor> \<le> roundHalfEven y" "roundHalfEven y \<le> \<lfloor>y\<rfloor> + 1"
  by (auto simp: roundHalfEven_def) linarith+

lemma roundHalfEven_mono:
  assumes "a \<le> b"
  shows "roundHalfEven a \<le> roundHalfEven b"
proof (cases "\<lfloor>a\<rfloor> = \<lfloor>b\<rfloor>")
  case False
  from assms have "\<lfloor>a\<rfloor> \<le> \<lfloor>b\<rfloor>"
    by (rule floor_mono)
  with False have "\<lfloor>a\<rfloor> + 1 \<le> \<lfloor>b\<rfloor>"
    by simp
  with roundHalfEven_bounds(4) [of a] roundHalfEven_bounds(3) [of b] show ?thesis
    by linarith
next
  case True
  with assms have "a - of_int \<lfloor>a\<rfloor> \<le> b - of_int \<lfloor>b\<rfloor>"
    by simp
  with True show ?thesis
    by (auto simp: roundHalfEven_def)
qed

text \<open>What \<open>ulpExponent\<close> guarantees for every positive magnitude.\<close>

lemma ulpExponent_ge: "- 1074 \<le> ulpExponent a"
  by (simp add: ulpExponent_def)

lemma ulpExponent_mono:
  assumes "a \<le> b"
  shows "ulpExponent a \<le> ulpExponent b"
proof -
  have "\<lfloor>a * 2 ^ 1074\<rfloor> \<le> \<lfloor>b * 2 ^ 1074\<rfloor>"
    using assms by (intro floor_mono) simp
  then have "bitlen \<lfloor>a * 2 ^ 1074\<rfloor> \<le> bitlen \<lfloor>b * 2 ^ 1074\<rfloor>"
    by (simp add: bitlen_def floorlog_mono nat_mono)
  then show ?thesis
    by (simp add: ulpExponent_def)
qed

lemma scale_1074: "- 1074 \<le> e \<Longrightarrow> (2::real) powi e * 2 ^ 1074 = 2 ^ nat (e + 1074)"
proof -
  assume e: "- 1074 \<le> e"
  have "(2::real) powi e * 2 ^ 1074 = 2 powi e * 2 powi 1074"
    by simp
  also have "\<dots> = 2 powi (e + 1074)"
    by (simp add: power_int_add)
  also have "\<dots> = 2 powi (int (nat (e + 1074)))"
    using e by simp
  finally show ?thesis
    by (simp only: power_int_of_nat)
qed

lemma ulpExponent_upper:
  assumes "0 \<le> a"
  shows "a / 2 powi ulpExponent a < 2 ^ 53"
proof -
  define K where "K = (2::real) ^ 1074"
  define N where "N = \<lfloor>a * K\<rfloor>"
  define e where "e = ulpExponent a"
  have K: "0 < K"
    by (simp add: K_def)
  have e: "- 1074 \<le> e" "bitlen N - 1127 \<le> e"
    by (simp_all add: e_def ulpExponent_def N_def K_def)
  have scale: "2 powi e * K = 2 ^ nat (e + 1074)"
    unfolding K_def using e(1) by (rule scale_1074)
  have N0: "0 \<le> N"
    using assms K by (simp add: N_def)
  have "N < 2 ^ nat (bitlen N)"
  proof (cases "N = 0")
    case True
    then show ?thesis by simp
  next
    case False
    with N0 have "0 < N" by simp
    then show ?thesis
      using bitlen_bounds by blast
  qed
  also have "\<dots> \<le> 2 ^ nat (e + 1127)"
    using e(2) by (intro power_increasing) simp_all
  finally have "N + 1 \<le> 2 ^ nat (e + 1127)"
    by simp
  then have "real_of_int (N + 1) \<le> of_int (2 ^ nat (e + 1127))"
    by (simp only: of_int_le_iff)
  moreover have "a * K < real_of_int (N + 1)"
    by (simp add: N_def)
  ultimately have "a * K < 2 ^ nat (e + 1127)"
    by simp
  also have "nat (e + 1127) = 53 + nat (e + 1074)"
    using e(1) by simp
  finally have "a * K < (2 ^ 53 * 2 powi e) * K"
    by (simp only: power_add mult.assoc scale)
  then have "a < 2 ^ 53 * 2 powi e"
    using K by (simp only: mult_less_cancel_right_pos)
  then show ?thesis
    by (simp add: pos_divide_less_eq e_def)
qed

lemma ulpExponent_lower:
  assumes "- 1074 < ulpExponent a"
  shows "2 ^ 52 \<le> a / 2 powi ulpExponent a"
proof -
  define K where "K = (2::real) ^ 1074"
  define N where "N = \<lfloor>a * K\<rfloor>"
  define e where "e = ulpExponent a"
  have K: "0 < K"
    by (simp add: K_def)
  have b: "bitlen N = e + 1127"
    using assms by (simp add: e_def ulpExponent_def N_def K_def max_def split: if_splits)
  have e: "- 1074 < e"
    using assms by (simp add: e_def)
  have scale: "2 powi e * K = 2 ^ nat (e + 1074)"
    unfolding K_def using e by (intro scale_1074) simp
  have "0 < bitlen N"
    using b e by simp
  then have N0: "0 < N"
    using bitlen_eq_zero_iff [of N] by (cases "0 < N") simp_all
  from bitlen_bounds [OF N0] have "2 ^ nat (bitlen N - 1) \<le> N"
    by simp
  moreover have "nat (bitlen N - 1) = 52 + nat (e + 1074)"
    using b e by simp
  ultimately have "2 ^ (52 + nat (e + 1074)) \<le> N"
    by simp
  then have "real_of_int (2 ^ (52 + nat (e + 1074))) \<le> of_int N"
    by (simp only: of_int_le_iff)
  also have "\<dots> \<le> a * K"
    by (simp add: N_def)
  finally have "(2 ^ 52 * 2 powi e) * K \<le> a * K"
    by (simp add: power_add mult.assoc scale)
  then have "2 ^ 52 * 2 powi e \<le> a"
    using K by (simp only: mult_le_cancel_right_pos)
  then show ?thesis
    by (simp add: pos_le_divide_eq e_def)
qed

lemma round64_pos_def:
  "0 \<le> a \<Longrightarrow> round64 a = of_int (roundHalfEven (a / 2 powi ulpExponent a)) * 2 powi ulpExponent a"
  by (cases "a = 0") (simp_all add: round64_def roundHalfEven_def)

lemma round64_mono_nonneg:
  assumes "0 \<le> x" and "x \<le> y"
  shows "round64 x \<le> round64 y"
proof -
  have y: "0 \<le> y"
    using assms by simp
  define ex where "ex = ulpExponent x"
  define ey where "ey = ulpExponent y"
  have le: "ex \<le> ey"
    using assms(2) by (simp add: ex_def ey_def ulpExponent_mono)
  have rx: "round64 x = of_int (roundHalfEven (x / 2 powi ex)) * 2 powi ex"
    using assms(1) by (simp add: round64_pos_def ex_def)
  have ry: "round64 y = of_int (roundHalfEven (y / 2 powi ey)) * 2 powi ey"
    using y by (simp add: round64_pos_def ey_def)
  show ?thesis
  proof (cases "ex = ey")
    case True
    have "x / 2 powi ey \<le> y / 2 powi ey"
      using assms(2) by (simp add: divide_right_mono)
    then have "roundHalfEven (x / 2 powi ey) \<le> roundHalfEven (y / 2 powi ey)"
      by (rule roundHalfEven_mono)
    then have "real_of_int (roundHalfEven (x / 2 powi ey)) \<le> of_int (roundHalfEven (y / 2 powi ey))"
      by (simp only: of_int_le_iff)
    then show ?thesis
      unfolding rx ry True by (simp add: mult_right_mono)
  next
    case False
    with le have lt: "ex < ey"
      by simp
    have "- 1074 \<le> ex"
      by (simp add: ex_def ulpExponent_ge)
    with lt have "- 1074 < ulpExponent y"
      by (simp add: ey_def)
    then have "2 ^ 52 \<le> y / 2 powi ey"
      unfolding ey_def by (rule ulpExponent_lower)
    then have "roundHalfEven (2 ^ 52) \<le> roundHalfEven (y / 2 powi ey)"
      by (rule roundHalfEven_mono)
    moreover have "roundHalfEven (2 ^ 52) = 2 ^ 52"
      using roundHalfEven_of_int [of "2 ^ 52"] by simp
    ultimately have "real_of_int (2 ^ 52) \<le> of_int (roundHalfEven (y / 2 powi ey))"
      by (simp only: of_int_le_iff)
    then have low: "2 ^ 52 * 2 powi ey \<le> round64 y"
      unfolding ry by (simp add: mult_right_mono)
    have "x / 2 powi ex \<le> 2 ^ 53"
      using ulpExponent_upper [OF assms(1)] by (simp add: ex_def)
    then have "roundHalfEven (x / 2 powi ex) \<le> roundHalfEven (2 ^ 53)"
      by (rule roundHalfEven_mono)
    moreover have "roundHalfEven (2 ^ 53) = 2 ^ 53"
      using roundHalfEven_of_int [of "2 ^ 53"] by simp
    ultimately have "real_of_int (roundHalfEven (x / 2 powi ex)) \<le> of_int (2 ^ 53)"
      by (simp only: of_int_le_iff)
    then have "round64 x \<le> 2 ^ 53 * 2 powi ex"
      unfolding rx by (simp add: mult_right_mono)
    also have "\<dots> = 2 ^ 52 * 2 powi (ex + 1)"
      by (simp add: power_int_add)
    also have "\<dots> \<le> 2 ^ 52 * 2 powi ey"
      using lt by (intro mult_left_mono power_int_increasing) simp_all
    finally show ?thesis
      using low by linarith
  qed
qed

lemma round64_nonpos: "x \<le> 0 \<Longrightarrow> round64 x \<le> 0"
  using round64_nonneg [of "- x"] by (simp add: round64_minus)

lemma round64_mono:
  assumes "x \<le> y"
  shows "round64 x \<le> round64 y"
proof -
  consider "0 \<le> x" | "x < 0" "0 \<le> y" | "y < 0" by linarith
  then show ?thesis
  proof cases
    case 1
    then show ?thesis using assms by (rule round64_mono_nonneg)
  next
    case 2
    then have "round64 x \<le> 0" "0 \<le> round64 y"
      by (simp_all add: round64_nonpos round64_nonneg)
    then show ?thesis by linarith
  next
    case 3
    with assms have "round64 (- y) \<le> round64 (- x)"
      by (intro round64_mono_nonneg) simp_all
    then show ?thesis
      by (simp add: round64_minus)
  qed
qed


text \<open>Binary64 values: the fixed points of the rounding.\<close>

lemma ulpExponent_subnormal:
  assumes "0 \<le> a" and "a / 2 powi (- 1074) < 2 ^ 53"
  shows "ulpExponent a = - 1074"
proof -
  define K where "K = (2::real) ^ 1074"
  have K: "a / 2 powi (- 1074) = a * K"
    by (simp only: K_def power_int_minus divide_inverse inverse_inverse_eq power_int_numeral)
  have "a * K < 2 ^ 53"
    using assms(2) by (simp only: K)
  then have "\<lfloor>a * K\<rfloor> < 2 ^ 53"
    by (simp add: floor_less_iff)
  then have "bitlen \<lfloor>a * K\<rfloor> \<le> 53"
    by (simp add: bitlen_le_iff_power)
  then show ?thesis
    unfolding ulpExponent_def K_def [symmetric] by simp
qed

lemma round64_significand:
  assumes "0 \<le> x"
  obtains M where "round64 x = of_int M * 2 powi ulpExponent x" and "0 \<le> M" and "M \<le> 2 ^ 53"
    and "- 1074 < ulpExponent x \<Longrightarrow> 2 ^ 52 \<le> M"
proof
  let ?e = "ulpExponent x"
  let ?M = "roundHalfEven (x / 2 powi ?e)"
  show "round64 x = of_int ?M * 2 powi ?e"
    using assms by (rule round64_pos_def)
  show "0 \<le> ?M"
    using assms by (intro roundHalfEven_nonneg) simp
  have "x / 2 powi ?e \<le> 2 ^ 53"
    using ulpExponent_upper [OF assms] by simp
  then have "?M \<le> roundHalfEven (2 ^ 53)"
    by (rule roundHalfEven_mono)
  then show "?M \<le> 2 ^ 53"
    using roundHalfEven_of_int [of "2 ^ 53"] by simp
  assume "- 1074 < ?e"
  then have "2 ^ 52 \<le> x / 2 powi ?e"
    by (rule ulpExponent_lower)
  then have "roundHalfEven (2 ^ 52) \<le> ?M"
    by (rule roundHalfEven_mono)
  then show "2 ^ 52 \<le> ?M"
    using roundHalfEven_of_int [of "2 ^ 52"] by simp
qed

lemma round64_scaled_int:
  assumes "0 \<le> M" and "M \<le> 2 ^ 53" and "- 1074 \<le> e"
    and "- 1074 < e \<Longrightarrow> 2 ^ 52 \<le> M"
  shows "round64 (of_int M * 2 powi e) = of_int M * 2 powi e"
proof -
  let ?r = "real_of_int M * 2 powi e"
  have quot: "?r / 2 powi e = of_int M"
    by simp
  consider "M = 0" | "M = 2 ^ 53" | "0 < M" "M < 2 ^ 53" "2 ^ 52 \<le> M" | "0 < M" "M < 2 ^ 52"
    using assms(1,2) by linarith
  then show ?thesis
  proof cases
    case 1
    then show ?thesis by simp
  next
    case 2
    have half: "?r / 2 powi (e + 1) = 2 ^ 52"
      by (simp add: 2 power_int_add)
    have "round64 ?r = of_int (roundHalfEven (?r / 2 powi (e + 1))) * 2 powi (e + 1)"
      using assms(3) by (intro round64_eval(1)) (simp_all only: half, simp_all)
    also have "\<dots> = of_int (roundHalfEven (of_int (2 ^ 52))) * 2 powi (e + 1)"
      by (simp only: half) simp
    also have "\<dots> = ?r"
      by (simp only: roundHalfEven_of_int) (simp add: 2 power_int_add)
    finally show ?thesis .
  next
    case 3
    have lo: "(2::real) ^ 52 \<le> ?r / 2 powi e"
    proof -
      have "real_of_int (2 ^ 52) \<le> of_int M"
        using 3(3) by (simp only: of_int_le_iff)
      then show ?thesis by (simp only: quot) simp
    qed
    have hi: "?r / 2 powi e < 2 ^ 53"
    proof -
      have "real_of_int M < of_int (2 ^ 53)"
        using 3(2) by (simp only: of_int_less_iff)
      then show ?thesis by (simp only: quot) simp
    qed
    have "round64 ?r = of_int (roundHalfEven (?r / 2 powi e)) * 2 powi e"
      using lo hi assms(3) by (rule round64_eval(1))
    then show ?thesis
      by (simp only: quot roundHalfEven_of_int)
  next
    case 4
    have e: "e = - 1074"
    proof (rule ccontr)
      assume "e \<noteq> - 1074"
      with assms(3) have "- 1074 < e" by simp
      then have "2 ^ 52 \<le> M" by (rule assms(4))
      with 4(2) show False by simp
    qed
    have r0: "0 \<le> ?r"
      using 4(1) by simp
    have "real_of_int M < of_int (2 ^ 53)"
      using 4(2) by (simp only: of_int_less_iff) simp
    then have small: "?r / 2 powi (- 1074) < 2 ^ 53"
      using quot by (simp add: e)
    have ue: "ulpExponent ?r = e"
      using r0 small by (simp add: e ulpExponent_subnormal)
    have "round64 ?r = of_int (roundHalfEven (?r / 2 powi ulpExponent ?r)) * 2 powi ulpExponent ?r"
      using r0 by (rule round64_pos_def)
    then show ?thesis
      by (simp only: ue quot roundHalfEven_of_int)
  qed
qed

lemma round64_idem: "round64 (round64 x) = round64 x"
proof -
  have pos: "round64 (round64 a) = round64 a" if "0 \<le> a" for a
  proof -
    from round64_significand [OF that] obtain M where
      M: "round64 a = of_int M * 2 powi ulpExponent a" "0 \<le> M" "M \<le> 2 ^ 53"
        "- 1074 < ulpExponent a \<Longrightarrow> 2 ^ 52 \<le> M"
      by blast
    show ?thesis
      unfolding M(1) using M(2,3) ulpExponent_ge M(4) by (rule round64_scaled_int)
  qed
  show ?thesis
  proof (cases "0 \<le> x")
    case True
    then show ?thesis by (rule pos)
  next
    case False
    then have "round64 (round64 (- x)) = round64 (- x)"
      by (intro pos) simp
    then show ?thesis
      by (simp add: round64_minus)
  qed
qed

text \<open>Below a positive binary64 value \<open>l\<close> there is no binary64 value above
  \<open>l * (1 - 2 powi (- 53))\<close>.\<close>

lemma binary64_gap:
  assumes S: "0 \<le> S" "round64 S = S" and l: "round64 l = l" and less: "S < l"
  shows "S \<le> l * (1 - 1 / 2 ^ 53)"
proof -
  have l0: "0 < l"
    using S(1) less by simp
  have l0': "0 \<le> l"
    using l0 by simp
  from round64_significand [OF l0'] obtain Ml where
    Ml: "round64 l = of_int Ml * 2 powi ulpExponent l"
      "- 1074 < ulpExponent l \<Longrightarrow> 2 ^ 52 \<le> Ml"
    by blast
  from round64_significand [OF S(1)] obtain Ms where
    Ms: "round64 S = of_int Ms * 2 powi ulpExponent S"
    by blast
  define el where "el = ulpExponent l"
  define es where "es = ulpExponent S"
  have le: "es \<le> el"
    using less by (simp add: es_def el_def ulpExponent_mono)
  have pl: "(0::real) < 2 powi el" and ps: "(0::real) < 2 powi es"
    by simp_all
  have Sq: "S / 2 powi es < 2 ^ 53"
    using ulpExponent_upper [OF S(1)] by (simp add: es_def)
  note MsS = Ms(1) [unfolded S(2), folded es_def]
  note MlL = Ml(1) [unfolded l, folded el_def]
  have "real_of_int Ms = S / 2 powi es"
    by (subst MsS) simp_all
  with Sq have "real_of_int Ms < of_int (2 ^ 53)"
    by simp
  then have Ms53: "Ms \<le> 2 ^ 53 - 1"
    by simp
  have lq: "l / 2 powi el < 2 ^ 53"
    using ulpExponent_upper [of l] l0 by (simp add: el_def)
  have "real_of_int Ml = l / 2 powi el"
    by (subst MlL) simp_all
  with lq have Ml53: "real_of_int Ml < 2 ^ 53"
    by simp
  show ?thesis
  proof (cases "es = el")
    case True
    have "of_int Ms * 2 powi el < real_of_int Ml * 2 powi el"
      using less MsS MlL by (simp only: True)
    then have "real_of_int Ms < of_int Ml"
      using pl by (simp only: mult_less_cancel_right_pos)
    then have "Ms + 1 \<le> Ml"
      by simp
    then have "real_of_int (Ms + 1) \<le> of_int Ml"
      by (simp only: of_int_le_iff)
    then have "real_of_int (Ms + 1) * 2 powi el \<le> of_int Ml * 2 powi el"
      using pl by (simp only: mult_le_cancel_right_pos)
    then have "(real_of_int Ms + 1) * 2 powi el \<le> of_int Ml * 2 powi el"
      by simp
    then have "real_of_int Ms * 2 powi el + 2 powi el \<le> of_int Ml * 2 powi el"
      by (simp only: distrib_right mult_1)
    then have step: "S + 2 powi el \<le> l"
      using MsS MlL by (simp only: True)
    from Ml53 have "real_of_int Ml \<le> 2 ^ 53"
      by simp
    then have "real_of_int Ml * 2 powi el \<le> 2 ^ 53 * 2 powi el"
      using pl by (simp only: mult_le_cancel_right_pos)
    then have "l \<le> 2 ^ 53 * 2 powi el"
      using MlL by simp
    then have "l / 2 ^ 53 \<le> 2 powi el"
      by (simp add: field_simps)
    with step show ?thesis
      by (simp add: algebra_simps)
  next
    case False
    with le have lt: "es < el" by simp
    have "- 1074 \<le> es"
      by (simp add: es_def ulpExponent_ge)
    with lt have "- 1074 < ulpExponent l"
      by (simp add: el_def)
    then have "2 ^ 52 \<le> Ml"
      by (rule Ml(2))
    then have "real_of_int (2 ^ 52) \<le> of_int Ml"
      by (simp only: of_int_le_iff)
    then have Ml52: "(2::real) ^ 52 \<le> of_int Ml"
      by simp
    from Ms53 have "real_of_int Ms \<le> of_int (2 ^ 53 - 1)"
      by (simp only: of_int_le_iff)
    then have "real_of_int Ms \<le> 2 ^ 53 - 1"
      by simp
    then have "real_of_int Ms * 2 powi es \<le> (2 ^ 53 - 1) * 2 powi es"
      using ps by (simp only: mult_le_cancel_right_pos)
    then have "S \<le> (2 ^ 53 - 1) * 2 powi es"
      using MsS by simp
    also have "\<dots> \<le> (2 ^ 53 - 1) * 2 powi (el - 1)"
      using lt by (intro mult_left_mono power_int_increasing) simp_all
    also have "\<dots> = (2 ^ 53 - 1) * (2 powi el / 2)"
      by (simp add: power_int_diff)
    also have "\<dots> \<le> (2 ^ 53 - 1) * (of_int Ml * 2 powi el / 2 ^ 53)"
    proof (intro mult_left_mono)
      have "2 powi el * 2 ^ 52 \<le> 2 powi el * real_of_int Ml"
        using Ml52 pl by (simp only: mult_le_cancel_left_pos)
      then show "2 powi el / 2 \<le> real_of_int Ml * 2 powi el / 2 ^ 53"
        by (simp add: field_simps)
    qed simp
    also have "\<dots> = (of_int Ml * 2 powi el) * (1 - 1 / 2 ^ 53)"
      by (simp add: field_simps)
    also have "\<dots> = l * (1 - 1 / 2 ^ 53)"
      by (simp only: MlL [symmetric])
    finally show ?thesis .
  qed
qed

lemma lit_0_1: "round64 (1 / 10) = 3602879701896397 / 36028797018963968"
  by (simp add: round64_eval(1) [where e = "- 56"] roundHalfEven_def)

lemma lit_0_2: "round64 (1 / 5) = 3602879701896397 / 18014398509481984"
  by (simp add: round64_eval(1) [where e = "- 55"] roundHalfEven_def)

lemma lit_0_3: "round64 (3 / 10) = 5404319552844595 / 18014398509481984"
  by (simp add: round64_eval(1) [where e = "- 54"] roundHalfEven_def)

lemma keep_0_1: "round64 (3602879701896397 / 36028797018963968) = 3602879701896397 / 36028797018963968"
  by (simp add: round64_eval(1) [where e = "- 56"] roundHalfEven_def)

lemma keep_0_3: "round64 (5404319552844595 / 18014398509481984) = 5404319552844595 / 18014398509481984"
  by (simp add: round64_eval(1) [where e = "- 54"] roundHalfEven_def)

lemma sum_01_02: "round64 (10808639105689191 / 36028797018963968) = 1351079888211149 / 4503599627370496"
  by (simp add: round64_eval(1) [where e = "- 54"] roundHalfEven_def)

lemma sum_03_03: "round64 (10808639105689191 / 18014398509481984) = 1351079888211149 / 2251799813685248"
  by (simp add: round64_eval(1) [where e = "- 53"] roundHalfEven_def)

lemma sum_03_02: "round64 (1 / 2) = 1 / 2"
  by (simp add: round64_eval(1) [where e = "- 53"] roundHalfEven_def)

lemma sum_05_01: "round64 (21617278211378381 / 36028797018963968) = 5404319552844595 / 9007199254740992"
  by (simp add: round64_eval(1) [where e = "- 53"] roundHalfEven_def)

section \<open>Balance\<close>

lemma foldl_balanceStep_exact:
  assumes "b \<in> \<int>" and "\<forall>t \<in> set ts. amount_t t \<in> \<int>"
    and "\<bar>b\<bar> + sum_list (map (\<lambda>t. \<bar>amount_t t\<bar>) ts) \<le> 2 ^ 53"
  shows "foldl balanceStep b ts =
     b + sum_list (map amount_t (filter (\<lambda>t. type_t t = income) ts))
       - sum_list (map amount_t (filter (\<lambda>t. type_t t = expense) ts))"
  using assms
proof (induction ts arbitrary: b)
  case Nil
  show ?case by simp
next
  case (Cons t ts)
  have rest: "0 \<le> sum_list (map (\<lambda>t. \<bar>amount_t t\<bar>) ts)"
    by (rule sum_list_nonneg) auto
  have a: "amount_t t \<in> \<int>"
    using Cons.prems(2) by simp
  have bound: "\<bar>b\<bar> + \<bar>amount_t t\<bar> + sum_list (map (\<lambda>t. \<bar>amount_t t\<bar>) ts) \<le> 2 ^ 53"
    using Cons.prems(3) by (simp add: add.assoc)
  have step: "balanceStep b t = (if type_t t = income then b + amount_t t else b - amount_t t)"
  proof (cases "type_t t = income")
    case True
    have "\<bar>b + amount_t t\<bar> \<le> 2 ^ 53"
      using bound rest by linarith
    moreover have "b + amount_t t \<in> \<int>"
      using Cons.prems(1) a by (rule Ints_add)
    ultimately have "round64 (b + amount_t t) = b + amount_t t"
      by (intro round64_Ints)
    with True show ?thesis
      by (simp add: balanceStep_def fadd_def)
  next
    case False
    have "\<bar>b - amount_t t\<bar> \<le> 2 ^ 53"
      using bound rest by linarith
    moreover have "b - amount_t t \<in> \<int>"
      using Cons.prems(1) a by (rule Ints_diff)
    ultimately have "round64 (b - amount_t t) = b - amount_t t"
      by (intro round64_Ints)
    with False show ?thesis
      by (simp add: balanceStep_def fsub_def)
  qed
  have next_int: "balanceStep b t \<in> \<int>"
    using Cons.prems(1) a by (cases "type_t t = income") (simp_all add: step)
  have "\<bar>balanceStep b t\<bar> \<le> \<bar>b\<bar> + \<bar>amount_t t\<bar>"
    by (cases "type_t t = income") (simp_all add: step abs_triangle_ineq abs_triangle_ineq4)
  with bound have next_bound:
    "\<bar>balanceStep b t\<bar> + sum_list (map (\<lambda>t. \<bar>amount_t t\<bar>) ts) \<le> 2 ^ 53"
    by linarith
  have "foldl balanceStep b (t # ts) = foldl balanceStep (balanceStep b t) ts"
    by simp
  also have "\<dots> = balanceStep b t
       + sum_list (map amount_t (filter (\<lambda>t. type_t t = income) ts))
       - sum_list (map amount_t (filter (\<lambda>t. type_t t = expense) ts))"
  proof (rule Cons.IH)
    show "balanceStep b t \<in> \<int>"
      by (rule next_int)
    show "\<forall>t \<in> set ts. amount_t t \<in> \<int>"
      using Cons.prems(2) by simp
    show "\<bar>balanceStep b t\<bar> + sum_list (map (\<lambda>t. \<bar>amount_t t\<bar>) ts) \<le> 2 ^ 53"
      by (rule next_bound)
  qed
  also have "\<dots> = b
       + sum_list (map amount_t (filter (\<lambda>t. type_t t = income) (t # ts)))
       - sum_list (map amount_t (filter (\<lambda>t. type_t t = expense) (t # ts)))"
    by (cases "type_t t") (simp_all add: step)
  finally show ?case .
qed

lemma sum_list_filter_mset:
  "sum_list (map f (filter P xs)) = sum_mset (image_mset f (filter_mset P (mset xs)))"
  by (induction xs) simp_all

lemma sum_list_map_mset:
  fixes f :: "'a \<Rightarrow> real"
  assumes "mset xs = mset ys"
  shows "sum_list (map f xs) = sum_list (map f ys)"
proof -
  have "sum_list (map f zs) = sum_mset (image_mset f (mset zs))" for zs
    by (induction zs) simp_all
  then show ?thesis
    by (simp only: assms)
qed

text \<open>
  Claim C2, as amended. getBalance is the binary64 sum taken from 0 through the stored
  list from left to right, adding the amount of an income transaction and subtracting the
  amount of any other, over the whole collection that getTransactions returns (no date
  enters the computation). Whenever the amounts are whole numbers whose absolute values
  add up to at most \<open>2 ^ 53\<close>, so that no step rounds, it is the sum of the income
  amounts minus the sum of the expense amounts, and every collection with the same
  transactions in another order has the same balance.
\<close>

theorem getBalance_exact_on_whole_amounts:
  assumes whole: "\<forall>t \<in> set (getTransactions m st). amount_t t \<in> \<int>"
    and bound: "sum_list (map (\<lambda>t. \<bar>amount_t t\<bar>) (getTransactions m st)) \<le> 2 ^ 53"
  shows "getBalance m st =
       foldl (\<lambda>balance t. if type_t t = income then fadd balance (amount_t t)
                           else fsub balance (amount_t t))
         0 (getTransactions m st)
     \<and> getBalance m st =
       sum_list (map amount_t (filter (\<lambda>t. type_t t = income) (getTransactions m st)))
       - sum_list (map amount_t (filter (\<lambda>t. type_t t = expense) (getTransactions m st)))
     \<and> (mset (getTransactions m' st') = mset (getTransactions m st)
          \<longrightarrow> getBalance m' st' = getBalance m st)"
proof -
  have fold: "getBalance m st =
       foldl (\<lambda>balance t. if type_t t = income then fadd balance (amount_t t)
                           else fsub balance (amount_t t))
         0 (getTransactions m st)"
    unfolding getBalance_def
    by (rule arg_cong [where f = "\<lambda>f. foldl f 0 (getTransactions m st)"])
       (simp add: fun_eq_iff balanceStep_def)
  have exact: "getBalance m st =
       sum_list (map amount_t (filter (\<lambda>t. type_t t = income) (getTransactions m st)))
       - sum_list (map amount_t (filter (\<lambda>t. type_t t = expense) (getTransactions m st)))"
    using foldl_balanceStep_exact [of 0 "getTransactions m st"] whole bound
    by (simp add: getBalance_def)
  have perm: "getBalance m' st' = getBalance m st"
    if same: "mset (getTransactions m' st') = mset (getTransactions m st)"
  proof -
    have "set (getTransactions m' st') = set (getTransactions m st)"
      using same by (rule mset_eq_setD)
    with whole have whole': "\<forall>t \<in> set (getTransactions m' st'). amount_t t \<in> \<int>"
      by simp
    have bound': "sum_list (map (\<lambda>t. \<bar>amount_t t\<bar>) (getTransactions m' st')) \<le> 2 ^ 53"
      using bound sum_list_map_mset [OF same, of "\<lambda>t. \<bar>amount_t t\<bar>"] by simp
    have "getBalance m' st' =
       sum_list (map amount_t (filter (\<lambda>t. type_t t = income) (getTransactions m' st')))
       - sum_list (map amount_t (filter (\<lambda>t. type_t t = expense) (getTransactions m' st')))"
      using foldl_balanceStep_exact [of 0 "getTransactions m' st'"] whole' bound'
      by (simp add: getBalance_def)
    also have "\<dots> =
       sum_list (map amount_t (filter (\<lambda>t. type_t t = income) (getTransactions m st)))
       - sum_list (map amount_t (filter (\<lambda>t. type_t t = expense) (getTransactions m st)))"
      by (simp add: sum_list_filter_mset same)
    finally show ?thesis
      by (simp only: exact)
  qed
  from fold exact perm show ?thesis
    by blast
qed

theorem getBalance_exact_on_whole_amounts_witness:
  "sum_list (map (\<lambda>t. \<bar>amount_t t\<bar>) (getTransactions healthy exampleStorage)) = 1080
   \<and> mset (getTransactions healthy (exampleStorage\<lparr>TRANSACTIONS := Json [salary, lunch, groceries]\<rparr>))
     = mset (getTransactions healthy exampleStorage)
   \<and> getBalance healthy (exampleStorage\<lparr>TRANSACTIONS := Json [salary, lunch, groceries]\<rparr>)
     = getBalance healthy exampleStorage
   \<and> getBalance healthy exampleStorage = 920"
proof -
  have r: "getTransactions healthy exampleStorage = [lunch, groceries, salary]"
    "getTransactions healthy (exampleStorage\<lparr>TRANSACTIONS := Json [salary, lunch, groceries]\<rparr>)
       = [salary, lunch, groceries]"
    by (simp_all add: getTransactions_def getItem_def healthy_def readList_def exampleStorage_def)
  have a: "amount_t lunch = 50" "amount_t groceries = 30" "amount_t salary = 1000"
    "type_t lunch = expense" "type_t groceries = expense" "type_t salary = income"
    by (simp_all add: lunch_def groceries_def salary_def)
  have whole: "\<forall>t \<in> set (getTransactions healthy exampleStorage). amount_t t \<in> \<int>"
    by (simp add: r a)
  have total: "sum_list (map (\<lambda>t. \<bar>amount_t t\<bar>) (getTransactions healthy exampleStorage)) = 1080"
    by (simp add: r a)
  then have bound: "sum_list (map (\<lambda>t. \<bar>amount_t t\<bar>) (getTransactions healthy exampleStorage)) \<le> 2 ^ 53"
    by simp
  have same: "mset (getTransactions healthy (exampleStorage\<lparr>TRANSACTIONS := Json [salary, lunch, groceries]\<rparr>))
     = mset (getTransactions healthy exampleStorage)"
    by (simp add: r)
  note inst = getBalance_exact_on_whole_amounts [OF whole bound, of healthy
      "exampleStorage\<lparr>TRANSACTIONS := Json [salary, lunch, groceries]\<rparr>"]
  from inst same have eq: "getBalance healthy (exampleStorage\<lparr>TRANSACTIONS := Json [salary, lunch, groceries]\<rparr>)
     = getBalance healthy exampleStorage"
    by blast
  from inst have "getBalance healthy exampleStorage =
       sum_list (map amount_t (filter (\<lambda>t. type_t t = income) (getTransactions healthy exampleStorage)))
       - sum_list (map amount_t (filter (\<lambda>t. type_t t = expense) (getTransactions healthy exampleStorage)))"
    by blast
  then have val: "getBalance healthy exampleStorage = 920"
    by (simp add: r a)
  from total same eq val show ?thesis
    by blast
qed

text \<open>
  Claim C2 as stated fails: the incomes 0.1, 0.2 and 0.3 give the balance
  0.6000000000000001 in this order and 0.6 in the reverse order, so the balance depends
  on the order of the collection (and at most one of the two is the sum of the amounts).
\<close>

theorem getBalance_depends_on_order:
  "mset (getTransactions healthy (emptyStorage\<lparr>TRANSACTIONS := Json [income03, income02, income01]\<rparr>))
     = mset (getTransactions healthy (emptyStorage\<lparr>TRANSACTIONS := Json [income01, income02, income03]\<rparr>))
   \<and> getBalance healthy (emptyStorage\<lparr>TRANSACTIONS := Json [income01, income02, income03]\<rparr>)
     = 1351079888211149 / 2251799813685248
   \<and> getBalance healthy (emptyStorage\<lparr>TRANSACTIONS := Json [income03, income02, income01]\<rparr>)
     = 5404319552844595 / 9007199254740992
   \<and> (1351079888211149 / 2251799813685248 :: real) \<noteq> 5404319552844595 / 9007199254740992"
proof -
  have r: "getTransactions healthy (emptyStorage\<lparr>TRANSACTIONS := Json ts\<rparr>) = ts" for ts
    by (simp add: getTransactions_def getItem_def healthy_def readList_def)
  have a: "amount_t income01 = 3602879701896397 / 36028797018963968"
    "amount_t income02 = 3602879701896397 / 18014398509481984"
    "amount_t income03 = 5404319552844595 / 18014398509481984"
    "type_t income01 = income" "type_t income02 = income" "type_t income03 = income"
    by (simp_all add: income01_def income02_def income03_def lit_0_1 lit_0_2 lit_0_3)
  have fwd: "foldl balanceStep 0 [income01, income02, income03]
      = 1351079888211149 / 2251799813685248"
    by (simp add: balanceStep_def fadd_def a keep_0_1 sum_01_02 sum_03_03)
  have bwd: "foldl balanceStep 0 [income03, income02, income01]
      = 5404319552844595 / 9007199254740992"
    by (simp add: balanceStep_def fadd_def a keep_0_3 sum_03_02 sum_05_01)
  show ?thesis
    unfolding getBalance_def r fwd bwd by simp
qed

section \<open>Updating a transaction\<close>

lemma findIndex_None: "findIndex P xs = None \<longleftrightarrow> (\<forall>x\<in>set xs. \<not> P x)"
  by (induction xs) auto

lemma findIndex_Some:
  "findIndex P xs = Some i \<Longrightarrow> i < length xs \<and> P (xs ! i) \<and> (\<forall>j<i. \<not> P (xs ! j))"
proof (induction xs arbitrary: i)
  case Nil
  then show ?case by simp
next
  case (Cons x xs)
  show ?case
  proof (cases "P x")
    case True
    with Cons.prems show ?thesis by simp
  next
    case False
    with Cons.prems obtain k where k: "findIndex P xs = Some k" "i = Suc k"
      by auto
    from Cons.IH [OF k(1)] False k(2) show ?thesis
      by (auto simp: less_Suc_eq_0_disj)
  qed
qed

text \<open>
  Claim C3. When no transaction that getTransactions returns has the given id,
  updateTransaction returns without an error and the storage it leaves is the storage it
  found, whatever the medium does: no write request is made, so every later read sees
  what it would have seen before.
\<close>

theorem updateTransaction_unknown_id:
  "ident \<notin> id_t ` set (getTransactions m st) \<Longrightarrow>
     updateTransaction m rt ident updates st = Inr st"
proof -
  assume "ident \<notin> id_t ` set (getTransactions m st)"
  then have "findIndex (\<lambda>t. id_t t = ident) (getTransactions m st) = None"
    by (auto simp: findIndex_None)
  then show ?thesis
    by (simp add: updateTransaction_def)
qed

theorem updateTransaction_unknown_id_witness:
  "''nonexistent-id'' \<notin> id_t ` set (getTransactions healthy exampleStorage)
   \<and> updateTransaction healthy exampleRuntime ''nonexistent-id''
        (noUpdates\<lparr>amount_u := Some 75\<rparr>) exampleStorage = Inr exampleStorage"
  using updateTransaction_unknown_id
    [of "''nonexistent-id''" healthy exampleStorage exampleRuntime "noUpdates\<lparr>amount_u := Some 75\<rparr>"]
  by (simp add: getTransactions_def getItem_def healthy_def readList_def exampleStorage_def
      lunch_def groceries_def salary_def)

section \<open>Evaluation of the example data\<close>

lemma healthy_simps:
  "getItem_rejects healthy k = False" "setItem_rejects healthy k = False"
  "multiRemove_rejects healthy = False"
  by (simp_all add: healthy_def)

lemma exampleStorage_read:
  "getTransactions healthy exampleStorage = [lunch, groceries, salary]"
  by (simp add: getTransactions_def getItem_def healthy_simps readList_def exampleStorage_def)

lemma digits36_example: "digits36 1710504000000 = ''ltslx1c0''"
  by (simp add: digits36.simps [of 1710504000000] digits36.simps [of 47514000000]
      digits36.simps [of 1319833333] digits36.simps [of 36662037] digits36.simps [of 1018389]
      digits36.simps [of 28288] digits36.simps [of 785] digits36.simps [of 21] digit36_def)

lemma generateId_example: "generateId exampleRuntime 0 = ''ltslx1c0k3j9x2''"
  by (simp add: generateId_def toString36_def exampleRuntime_def digits36_example)

lemma saveTransaction_result:
  "saveTransaction m rt draft st =
     (if setItem_rejects m K_TRANSACTIONS then Inl StorageError
      else Inr (\<lparr>id_t = generateId rt 0, type_t = type_d draft, amount_t = amount_d draft,
                 category_t = category_d draft, description_t = description_d draft,
                 notes_t = notes_d draft, photos_t = photos_d draft, date_t = date_d draft,
                 tags_t = tags_d draft, createdAt_t = clock rt 1, updatedAt_t = clock rt 2\<rparr>,
                st\<lparr>TRANSACTIONS := Json (getTransactions m st @
                  [\<lparr>id_t = generateId rt 0, type_t = type_d draft, amount_t = amount_d draft,
                 category_t = category_d draft, description_t = description_d draft,
                 notes_t = notes_d draft, photos_t = photos_d draft, date_t = date_d draft,
                 tags_t = tags_d draft, createdAt_t = clock rt 1, updatedAt_t = clock rt 2\<rparr>])\<rparr>))"
  by (simp add: saveTransaction_def setItem_def Let_def)

lemma coffee_created:
  "\<lparr>id_t = generateId exampleRuntime 0, type_t = type_d coffee, amount_t = amount_d coffee,
     category_t = category_d coffee, description_t = description_d coffee,
     notes_t = notes_d coffee, photos_t = photos_d coffee, date_t = date_d coffee,
     tags_t = tags_d coffee, createdAt_t = clock exampleRuntime 1,
     updatedAt_t = clock exampleRuntime 2\<rparr> = coffeeSaved"
  unfolding generateId_example
  by (simp add: coffee_def coffeeSaved_def exampleRuntime_def)

lemma exampleRuntime_clock: "clock exampleRuntime k = 1710504000000 + int k"
  by (simp add: exampleRuntime_def)

text \<open>The calendar fields of the dates of the example data.\<close>

lemma civilFromDays_19783: "civilFromDays 19783 = (2024, 3, 1)"
  unfolding civilFromDays_def by (simp only: Let_def) simp

lemma civilFromDays_19792: "civilFromDays 19792 = (2024, 3, 10)"
  unfolding civilFromDays_def by (simp only: Let_def) simp

lemma civilFromDays_19794: "civilFromDays 19794 = (2024, 3, 12)"
  unfolding civilFromDays_def by (simp only: Let_def) simp

lemma civilFromDays_19797: "civilFromDays 19797 = (2024, 3, 15)"
  unfolding civilFromDays_def by (simp only: Let_def) simp

lemma example_months:
  "getMonth 1710504000000 = 2" "getFullYear 1710504000000 = 2024"
  "getMonth 1710061200000 = 2" "getFullYear 1710061200000 = 2024"
  "getMonth 1710234000000 = 2" "getFullYear 1710234000000 = 2024"
  "getMonth 1709283600000 = 2" "getFullYear 1709283600000 = 2024"
  by (simp_all add: getMonth_def getFullYear_def msPerDay_def civilFromDays_19783
      civilFromDays_19792 civilFromDays_19794 civilFromDays_19797)

section \<open>Fields merged by an update\<close>

text \<open>
  Claim C1, as amended. When the collection that updateTransaction loads holds an entity
  with the given id and the medium accepts the write, the operation succeeds and replaces
  the first such entity by one in which: every field that the partial record names has
  the named value, \<open>id\<close> and \<open>createdAt\<close> included; every field it does not name keeps its
  value, so \<open>id\<close> and \<open>createdAt\<close> are preserved exactly when the record does not name them;
  and \<open>updatedAt\<close> is the current time, whatever the record names. Every other entity of
  the collection, and every other key of the storage, is unchanged.
\<close>

theorem updateTransaction_merges_named_fields:
  assumes loaded: "getTransactions m st = ts"
    and found: "findIndex (\<lambda>t. id_t t = ident) ts = Some i"
    and accepted: "\<not> setItem_rejects m K_TRANSACTIONS"
  shows "\<exists>e'. updateTransaction m rt ident updates st
                 = Inr (st\<lparr>TRANSACTIONS := Json (ts[i := e'])\<rparr>)
     \<and> i < length ts \<and> id_t (ts ! i) = ident
     \<and> id_t e' = (case id_u updates of None \<Rightarrow> ident | Some v \<Rightarrow> v)
     \<and> createdAt_t e' = (case createdAt_u updates of None \<Rightarrow> createdAt_t (ts ! i) | Some v \<Rightarrow> v)
     \<and> updatedAt_t e' = clock rt 0
     \<and> type_t e' = (case type_u updates of None \<Rightarrow> type_t (ts ! i) | Some v \<Rightarrow> v)
     \<and> amount_t e' = (case amount_u updates of None \<Rightarrow> amount_t (ts ! i) | Some v \<Rightarrow> v)
     \<and> category_t e' = (case category_u updates of None \<Rightarrow> category_t (ts ! i) | Some v \<Rightarrow> v)
     \<and> description_t e' = (case description_u updates of None \<Rightarrow> description_t (ts ! i) | Some v \<Rightarrow> v)
     \<and> notes_t e' = (case notes_u updates of None \<Rightarrow> notes_t (ts ! i) | Some v \<Rightarrow> v)
     \<and> photos_t e' = (case photos_u updates of None \<Rightarrow> photos_t (ts ! i) | Some v \<Rightarrow> v)
     \<and> date_t e' = (case date_u updates of None \<Rightarrow> date_t (ts ! i) | Some v \<Rightarrow> v)
     \<and> tags_t e' = (case tags_u updates of None \<Rightarrow> tags_t (ts ! i) | Some v \<Rightarrow> v)
     \<and> length (ts[i := e']) = length ts
     \<and> (\<forall>j<length ts. j \<noteq> i \<longrightarrow> ts[i := e'] ! j = ts ! j)"
proof -
  from findIndex_Some [OF found] have i: "i < length ts" "id_t (ts ! i) = ident"
    by simp_all
  have run: "updateTransaction m rt ident updates st
      = Inr (st\<lparr>TRANSACTIONS := Json (ts[i := spreadUpdates (ts ! i) updates (clock rt 0)])\<rparr>)"
    using loaded found accepted by (simp add: updateTransaction_def setItem_def)
  show ?thesis
    by (rule exI [of _ "spreadUpdates (ts ! i) updates (clock rt 0)"])
       (simp add: run i spreadUpdates_def spreadField_def)
qed

theorem updateTransaction_merges_named_fields_witness:
  "getTransactions healthy exampleStorage = [lunch, groceries, salary]
   \<and> findIndex (\<lambda>t. id_t t = ''t2'') [lunch, groceries, salary] = Some 1
   \<and> \<not> setItem_rejects healthy K_TRANSACTIONS
   \<and> (\<exists>e'. updateTransaction healthy exampleRuntime ''t2'' (noUpdates\<lparr>amount_u := Some 75\<rparr>)
              exampleStorage
            = Inr (exampleStorage\<lparr>TRANSACTIONS := Json [lunch, e', salary]\<rparr>)
          \<and> id_t e' = ''t2'' \<and> amount_t e' = 75 \<and> createdAt_t e' = 1710234000000
          \<and> updatedAt_t e' = 1710504000000)"
proof -
  have h2: "findIndex (\<lambda>t. id_t t = ''t2'') [lunch, groceries, salary] = Some 1"
    by (simp add: lunch_def groceries_def salary_def)
  have h3: "\<not> setItem_rejects healthy K_TRANSACTIONS"
    by (simp add: healthy_simps)
  from updateTransaction_merges_named_fields
         [OF exampleStorage_read h2 h3, of exampleRuntime "noUpdates\<lparr>amount_u := Some 75\<rparr>"]
  obtain e' where e':
    "updateTransaction healthy exampleRuntime ''t2'' (noUpdates\<lparr>amount_u := Some 75\<rparr>)
        exampleStorage
      = Inr (exampleStorage\<lparr>TRANSACTIONS := Json ([lunch, groceries, salary][1 := e'])\<rparr>)"
    "id_t e' = (case id_u (noUpdates\<lparr>amount_u := Some 75\<rparr>) of None \<Rightarrow> ''t2'' | Some v \<Rightarrow> v)"
    "amount_t e' = (case amount_u (noUpdates\<lparr>amount_u := Some 75\<rparr>) of
                      None \<Rightarrow> amount_t ([lunch, groceries, salary] ! 1) | Some v \<Rightarrow> v)"
    "createdAt_t e' = (case createdAt_u (noUpdates\<lparr>amount_u := Some 75\<rparr>) of
                      None \<Rightarrow> createdAt_t ([lunch, groceries, salary] ! 1) | Some v \<Rightarrow> v)"
    "updatedAt_t e' = clock exampleRuntime 0"
    by blast
  have "updateTransaction healthy exampleRuntime ''t2'' (noUpdates\<lparr>amount_u := Some 75\<rparr>)
              exampleStorage
            = Inr (exampleStorage\<lparr>TRANSACTIONS := Json [lunch, e', salary]\<rparr>)
          \<and> id_t e' = ''t2'' \<and> amount_t e' = 75 \<and> createdAt_t e' = 1710234000000
          \<and> updatedAt_t e' = 1710504000000"
    using e' by (simp add: noUpdates_def groceries_def exampleRuntime_def)
  then show ?thesis
    using exampleStorage_read h2 h3 by blast
qed

text \<open>
  Claim C1 as stated fails: a partial record that names \<open>id\<close> and \<open>createdAt\<close> replaces
  both in the matched entity.
\<close>

theorem updateTransaction_overwrites_id:
  "updateTransaction healthy exampleRuntime ''t1''
      (noUpdates\<lparr>id_u := Some ''zz'', createdAt_u := Some 0\<rparr>) exampleStorage
     = Inr (exampleStorage\<lparr>TRANSACTIONS :=
              Json [lunch\<lparr>id_t := ''zz'', createdAt_t := 0, updatedAt_t := 1710504000000\<rparr>,
                    groceries, salary]\<rparr>)
   \<and> id_t lunch = ''t1'' \<and> createdAt_t lunch = 1710061200000"
proof -
  have found: "findIndex (\<lambda>t. id_t t = ''t1'') [lunch, groceries, salary] = Some 0"
    by (simp add: lunch_def)
  have now: "clock exampleRuntime 0 = 1710504000000"
    by (simp add: exampleRuntime_def)
  show ?thesis
    by (simp add: updateTransaction_def exampleStorage_read found now setItem_def healthy_simps
        spreadUpdates_def spreadField_def noUpdates_def lunch_def)
qed

section \<open>Creating a transaction\<close>

text \<open>
  Claim C7, as amended. A saveTransaction whose two requests the medium accepts (the
  read of the collection and the write) returns the created entity and leaves a storage
  whose transaction list is the list read before with the created entity appended:
  exactly one entity more, the earlier ones and all other keys as they were. The created
  entity has the fields of the draft; its id is the one generateId builds, the clock
  reading in base 36 followed by the random suffix (nothing compares it with the stored
  ids); \<open>createdAt\<close> and \<open>updatedAt\<close> are the next two clock readings.
\<close>

theorem saveTransaction_appends_created:
  assumes readable: "\<not> getItem_rejects m K_TRANSACTIONS"
    and accepted: "\<not> setItem_rejects m K_TRANSACTIONS"
  shows "\<exists>created st'. saveTransaction m rt draft st = Inr (created, st')
     \<and> st' = st\<lparr>TRANSACTIONS := Json (getTransactions m st @ [created])\<rparr>
     \<and> getTransactions m st' = getTransactions m st @ [created]
     \<and> length (getTransactions m st') = length (getTransactions m st) + 1
     \<and> id_t created = generateId rt 0
     \<and> id_t created = toString36 (clock rt 0) @ randomSuffix rt 0
     \<and> createdAt_t created = clock rt 1
     \<and> updatedAt_t created = clock rt 2
     \<and> type_t created = type_d draft
     \<and> amount_t created = amount_d draft
     \<and> category_t created = category_d draft
     \<and> description_t created = description_d draft
     \<and> notes_t created = notes_d draft
     \<and> photos_t created = photos_d draft
     \<and> date_t created = date_d draft
     \<and> tags_t created = tags_d draft"
proof -
  have reread: "getTransactions m (st\<lparr>TRANSACTIONS := Json xs\<rparr>) = xs" for xs
    using readable by (simp add: getTransactions_def getItem_def readList_def)
  show ?thesis
    using accepted by (simp add: saveTransaction_result reread generateId_def)
qed

theorem saveTransaction_appends_created_witness:
  "\<not> getItem_rejects healthy K_TRANSACTIONS \<and> \<not> setItem_rejects healthy K_TRANSACTIONS
   \<and> saveTransaction healthy exampleRuntime coffee exampleStorage
      = Inr (coffeeSaved,
             exampleStorage\<lparr>TRANSACTIONS := Json [lunch, groceries, salary, coffeeSaved]\<rparr>)
   \<and> id_t coffeeSaved = ''ltslx1c0k3j9x2''"
proof -
  have h1: "\<not> getItem_rejects healthy K_TRANSACTIONS"
    and h2: "\<not> setItem_rejects healthy K_TRANSACTIONS"
    by (simp_all add: healthy_simps)
  from saveTransaction_appends_created [OF h1 h2, of exampleRuntime coffee exampleStorage]
  obtain created st' where
    "saveTransaction healthy exampleRuntime coffee exampleStorage = Inr (created, st')"
    by blast
  have "saveTransaction healthy exampleRuntime coffee exampleStorage
      = Inr (coffeeSaved,
             exampleStorage\<lparr>TRANSACTIONS := Json [lunch, groceries, salary, coffeeSaved]\<rparr>)"
    by (simp add: saveTransaction_result healthy_simps exampleStorage_read generateId_example
        exampleRuntime_clock coffee_def coffeeSaved_def)
  with h1 h2 show ?thesis by (simp add: coffeeSaved_def)
qed

text \<open>
  Claim C7 as stated fails: a save during which the medium rejects the read of the
  collection still succeeds, and the stored list, three entities before, is afterwards
  the created entity alone.
\<close>

theorem saveTransaction_rejected_read_drops_stored:
  "getTransactions healthy exampleStorage = [lunch, groceries, salary]
   \<and> saveTransaction rejectingReads exampleRuntime coffee exampleStorage
      = Inr (coffeeSaved, exampleStorage\<lparr>TRANSACTIONS := Json [coffeeSaved]\<rparr>)
   \<and> getTransactions healthy (exampleStorage\<lparr>TRANSACTIONS := Json [coffeeSaved]\<rparr>)
      = [coffeeSaved]"
proof -
  have before: "getTransactions rejectingReads exampleStorage = []"
    by (simp add: getTransactions_def getItem_def readList_def rejectingReads_def)
  have after: "getTransactions healthy (exampleStorage\<lparr>TRANSACTIONS := Json [coffeeSaved]\<rparr>)
      = [coffeeSaved]"
    by (simp add: getTransactions_def getItem_def readList_def healthy_simps)
  have "saveTransaction rejectingReads exampleRuntime coffee exampleStorage
      = Inr (coffeeSaved, exampleStorage\<lparr>TRANSACTIONS := Json [coffeeSaved]\<rparr>)"
    using before
    by (simp add: saveTransaction_result rejectingReads_def generateId_example
        exampleRuntime_clock coffee_def coffeeSaved_def)
  with exampleStorage_read after show ?thesis
    by blast
qed

section \<open>Failures of the medium\<close>

text \<open>
  Claim C8, as amended. The four list reads return the empty list, and getSettings
  returns nothing, whenever the medium rejects the read or the key is absent, blank or
  corrupt (they have no error result at all). A write operation returns the error of a
  rejected write request: saveTransaction, deleteTransaction, saveCategories and
  saveSettings whenever \<open>setItem\<close> is rejected, updateTransaction whenever it is rejected
  and the id is found, clearAll whenever \<open>multiRemove\<close> is rejected. (A rejected read
  inside a write operation is not among the failures propagated: see the next theorem.)
\<close>

theorem reads_degrade_rejected_writes_propagate:
  "(getItem_rejects m K_TRANSACTIONS \<or> TRANSACTIONS st \<in> {Absent, Blank, Corrupt}
      \<longrightarrow> getTransactions m st = [])
   \<and> (getItem_rejects m K_CATEGORIES \<or> CATEGORIES st \<in> {Absent, Blank, Corrupt}
      \<longrightarrow> getCategories m st = [])
   \<and> (getItem_rejects m K_NOTES \<or> NOTES st \<in> {Absent, Blank, Corrupt}
      \<longrightarrow> getNotes m st = [])
   \<and> (getItem_rejects m K_BUDGETS \<or> BUDGETS st \<in> {Absent, Blank, Corrupt}
      \<longrightarrow> getBudgets m st = [])
   \<and> (getItem_rejects m K_SETTINGS \<or> SETTINGS st \<in> {Absent, Blank, Corrupt}
      \<longrightarrow> getSettings m st = None)
   \<and> (setItem_rejects w K_TRANSACTIONS
      \<longrightarrow> saveTransaction w rt draft s = Inl StorageError
          \<and> deleteTransaction w ident s = Inl StorageError
          \<and> (ident \<in> id_t ` set (getTransactions w s)
               \<longrightarrow> updateTransaction w rt ident updates s = Inl StorageError))
   \<and> (setItem_rejects w K_CATEGORIES \<longrightarrow> saveCategories w cs s = Inl StorageError)
   \<and> (setItem_rejects w K_SETTINGS \<longrightarrow> saveSettings w settings s = Inl StorageError)
   \<and> (multiRemove_rejects w \<longrightarrow> clearAll w s = Inl StorageError)"
proof -
  have c1: "getItem_rejects m K_TRANSACTIONS \<or> TRANSACTIONS st \<in> {Absent, Blank, Corrupt}
      \<longrightarrow> getTransactions m st = []"
    by (auto simp: getTransactions_def readList_def getItem_def)
  have c2: "getItem_rejects m K_CATEGORIES \<or> CATEGORIES st \<in> {Absent, Blank, Corrupt}
      \<longrightarrow> getCategories m st = []"
    by (auto simp: getCategories_def readList_def getItem_def)
  have c3: "getItem_rejects m K_NOTES \<or> NOTES st \<in> {Absent, Blank, Corrupt}
      \<longrightarrow> getNotes m st = []"
    by (auto simp: getNotes_def readList_def getItem_def)
  have c4: "getItem_rejects m K_BUDGETS \<or> BUDGETS st \<in> {Absent, Blank, Corrupt}
      \<longrightarrow> getBudgets m st = []"
    by (auto simp: getBudgets_def readList_def getItem_def)
  have c5: "getItem_rejects m K_SETTINGS \<or> SETTINGS st \<in> {Absent, Blank, Corrupt}
      \<longrightarrow> getSettings m st = None"
    by (auto simp: getSettings_def getItem_def)
  have upd: "updateTransaction w rt ident updates s = Inl StorageError"
    if "setItem_rejects w K_TRANSACTIONS" "ident \<in> id_t ` set (getTransactions w s)"
  proof -
    from that(2) have "findIndex (\<lambda>t. id_t t = ident) (getTransactions w s) \<noteq> None"
      by (auto simp: findIndex_None)
    then obtain i where "findIndex (\<lambda>t. id_t t = ident) (getTransactions w s) = Some i"
      by blast
    with that(1) show ?thesis
      by (simp add: updateTransaction_def setItem_def)
  qed
  have c6: "setItem_rejects w K_TRANSACTIONS
      \<longrightarrow> saveTransaction w rt draft s = Inl StorageError
          \<and> deleteTransaction w ident s = Inl StorageError
          \<and> (ident \<in> id_t ` set (getTransactions w s)
               \<longrightarrow> updateTransaction w rt ident updates s = Inl StorageError)"
    using upd by (simp add: saveTransaction_result deleteTransaction_def setItem_def)
  have c7: "setItem_rejects w K_CATEGORIES \<longrightarrow> saveCategories w cs s = Inl StorageError"
    by (simp add: saveCategories_def setItem_def)
  have c8: "setItem_rejects w K_SETTINGS \<longrightarrow> saveSettings w settings s = Inl StorageError"
    by (simp add: saveSettings_def setItem_def)
  have c9: "multiRemove_rejects w \<longrightarrow> clearAll w s = Inl StorageError"
    by (simp add: clearAll_def)
  show ?thesis
    by (intro conjI c1 c2 c3 c4 c5 c6 c7 c8 c9)
qed

theorem reads_degrade_rejected_writes_propagate_witness:
  "getItem_rejects rejectingReads K_TRANSACTIONS
   \<and> getTransactions rejectingReads exampleStorage = []
   \<and> getCategories rejectingReads exampleStorage = []
   \<and> getNotes rejectingReads exampleStorage = []
   \<and> getBudgets rejectingReads exampleStorage = []
   \<and> getSettings rejectingReads exampleStorage = None
   \<and> setItem_rejects rejectingWrites K_TRANSACTIONS
   \<and> ''t1'' \<in> id_t ` set (getTransactions rejectingWrites exampleStorage)
   \<and> saveTransaction rejectingWrites exampleRuntime coffee exampleStorage = Inl StorageError
   \<and> deleteTransaction rejectingWrites ''t1'' exampleStorage = Inl StorageError
   \<and> updateTransaction rejectingWrites exampleRuntime ''t1'' noUpdates exampleStorage
       = Inl StorageError
   \<and> saveCategories rejectingWrites [] exampleStorage = Inl StorageError
   \<and> saveSettings rejectingWrites defaultSettings exampleStorage = Inl StorageError
   \<and> clearAll rejectingWrites exampleStorage = Inl StorageError"
proof -
  have r: "getItem_rejects rejectingReads k" for k
    by (simp add: rejectingReads_def)
  have w: "setItem_rejects rejectingWrites k" "multiRemove_rejects rejectingWrites" for k
    by (simp_all add: rejectingWrites_def)
  have present: "''t1'' \<in> id_t ` set (getTransactions rejectingWrites exampleStorage)"
    by (simp add: getTransactions_def getItem_def readList_def rejectingWrites_def
        exampleStorage_def lunch_def)
  from reads_degrade_rejected_writes_propagate
         [of rejectingReads exampleStorage rejectingWrites exampleRuntime coffee
             exampleStorage "''t1''" noUpdates "[]" defaultSettings]
  show ?thesis
    using r w present by simp
qed

text \<open>
  Claim C8 as stated fails for the write operations: with a medium that rejects the read
  of the transaction collection, saveTransaction reports no error. The read failure is
  swallowed by getTransactions, and the operation writes the collection that holds the
  new entity alone.
\<close>

theorem saveTransaction_swallows_rejected_read:
  "getItem rejectingReads K_TRANSACTIONS (TRANSACTIONS exampleStorage) = Inl StorageError
   \<and> saveTransaction rejectingReads exampleRuntime coffee exampleStorage
      = Inr (coffeeSaved, exampleStorage\<lparr>TRANSACTIONS := Json [coffeeSaved]\<rparr>)"
proof -
  have "getTransactions rejectingReads exampleStorage = []"
    by (simp add: getTransactions_def getItem_def readList_def rejectingReads_def)
  then show ?thesis
    by (simp add: saveTransaction_result getItem_def rejectingReads_def generateId_example
        exampleRuntime_clock coffee_def coffeeSaved_def)
qed

section \<open>Bootstrap and clearAll\<close>

lemma initialize_seeds:
  assumes "\<not> truthyString (INITIALIZED s)"
    and "\<not> getItem_rejects h K_INITIALIZED"
    and "\<not> setItem_rejects h K_CATEGORIES"
    and "\<not> setItem_rejects h K_SETTINGS"
    and "\<not> setItem_rejects h K_INITIALIZED"
  shows "initialize h rt s =
           s\<lparr>CATEGORIES := Json (defaultCategories rt), SETTINGS := Json defaultSettings,
             INITIALIZED := Some ''true''\<rparr>"
  using assms
  by (simp add: initialize_def getItem_def saveCategories_def saveSettings_def setItem_def)

lemma initialize_marked:
  "truthyString (INITIALIZED st) \<Longrightarrow> initialize m rt st = st"
  by (simp add: initialize_def getItem_def)

text \<open>
  Claim C9. Whenever the marker key holds a marker (a non-empty string; the service
  writes \<open>'true'\<close>), initialize changes nothing in the storage, whatever the categories
  and settings hold and whatever the medium does. When the marker is missing and the
  medium accepts the requests, initialize stores the default categories and the default
  settings and then the marker, so that any further initialize leaves that storage as
  it is.
\<close>

theorem initialize_idempotent:
  "(truthyString (INITIALIZED st) \<longrightarrow> initialize m rt st = st)
   \<and> (\<not> truthyString (INITIALIZED s) \<and> \<not> getItem_rejects h K_INITIALIZED
        \<and> \<not> setItem_rejects h K_CATEGORIES \<and> \<not> setItem_rejects h K_SETTINGS
        \<and> \<not> setItem_rejects h K_INITIALIZED
      \<longrightarrow> initialize h rt' s =
            s\<lparr>CATEGORIES := Json (defaultCategories rt'), SETTINGS := Json defaultSettings,
              INITIALIZED := Some ''true''\<rparr>
          \<and> initialize m rt (initialize h rt' s) = initialize h rt' s)"
proof (intro conjI impI)
  assume "truthyString (INITIALIZED st)"
  then show "initialize m rt st = st"
    by (rule initialize_marked)
next
  assume a: "\<not> truthyString (INITIALIZED s) \<and> \<not> getItem_rejects h K_INITIALIZED
        \<and> \<not> setItem_rejects h K_CATEGORIES \<and> \<not> setItem_rejects h K_SETTINGS
        \<and> \<not> setItem_rejects h K_INITIALIZED"
  then show seeded: "initialize h rt' s =
            s\<lparr>CATEGORIES := Json (defaultCategories rt'), SETTINGS := Json defaultSettings,
              INITIALIZED := Some ''true''\<rparr>"
    by (simp add: initialize_seeds)
  have "truthyString (INITIALIZED (initialize h rt' s))"
    by (simp add: seeded truthyString_def)
  then show "initialize m rt (initialize h rt' s) = initialize h rt' s"
    by (rule initialize_marked)
qed

theorem initialize_idempotent_witness:
  "truthyString (INITIALIZED (exampleStorage\<lparr>CATEGORIES := Json []\<rparr>))
   \<and> initialize healthy exampleRuntime (exampleStorage\<lparr>CATEGORIES := Json []\<rparr>)
       = exampleStorage\<lparr>CATEGORIES := Json []\<rparr>
   \<and> \<not> truthyString (INITIALIZED emptyStorage) \<and> \<not> getItem_rejects healthy K_INITIALIZED
   \<and> \<not> setItem_rejects healthy K_CATEGORIES \<and> \<not> setItem_rejects healthy K_SETTINGS
   \<and> \<not> setItem_rejects healthy K_INITIALIZED
   \<and> initialize healthy exampleRuntime emptyStorage
       = emptyStorage\<lparr>CATEGORIES := Json (defaultCategories exampleRuntime),
           SETTINGS := Json defaultSettings, INITIALIZED := Some ''true''\<rparr>
   \<and> initialize healthy exampleRuntime (initialize healthy exampleRuntime emptyStorage)
       = initialize healthy exampleRuntime emptyStorage"
proof -
  have h1: "truthyString (INITIALIZED (exampleStorage\<lparr>CATEGORIES := Json []\<rparr>))"
    by (simp add: truthyString_def exampleStorage_def)
  have h2: "\<not> truthyString (INITIALIZED emptyStorage)"
    by (simp add: truthyString_def emptyStorage_def)
  have h3: "\<not> truthyString (INITIALIZED emptyStorage) \<and> \<not> getItem_rejects healthy K_INITIALIZED
        \<and> \<not> setItem_rejects healthy K_CATEGORIES \<and> \<not> setItem_rejects healthy K_SETTINGS
        \<and> \<not> setItem_rejects healthy K_INITIALIZED"
    using h2 by (simp add: healthy_simps)
  note inst = initialize_idempotent
         [of "exampleStorage\<lparr>CATEGORIES := Json []\<rparr>" healthy exampleRuntime emptyStorage
             healthy exampleRuntime]
  from inst h1 have p1: "initialize healthy exampleRuntime (exampleStorage\<lparr>CATEGORIES := Json []\<rparr>)
       = exampleStorage\<lparr>CATEGORIES := Json []\<rparr>"
    by blast
  from inst h3 have p2: "initialize healthy exampleRuntime emptyStorage
       = emptyStorage\<lparr>CATEGORIES := Json (defaultCategories exampleRuntime),
           SETTINGS := Json defaultSettings, INITIALIZED := Some ''true''\<rparr>
     \<and> initialize healthy exampleRuntime (initialize healthy exampleRuntime emptyStorage)
       = initialize healthy exampleRuntime emptyStorage"
    by blast
  from h1 p1 h3 p2 show ?thesis
    by blast
qed

lemma defaultCategories_rows:
  "defaultCategories rt =
       [\<lparr>id_c = generateId rt 0, name_c = ''Salary'', type_c = income,
         color_c = ''#16a34a'', icon_c = ''briefcase'', budgetLimit_c = 0\<rparr>,
        \<lparr>id_c = generateId rt 1, name_c = ''Freelance'', type_c = income,
         color_c = ''#059669'', icon_c = ''laptop'', budgetLimit_c = 0\<rparr>,
        \<lparr>id_c = generateId rt 2, name_c = ''Investment'', type_c = income,
         color_c = ''#0d9488'', icon_c = ''trending-up'', budgetLimit_c = 0\<rparr>,
        \<lparr>id_c = generateId rt 3, name_c = ''Gift'', type_c = income,
         color_c = ''#0891b2'', icon_c = ''gift'', budgetLimit_c = 0\<rparr>,
        \<lparr>id_c = generateId rt 4, name_c = ''Other'', type_c = income,
         color_c = ''#0284c7'', icon_c = ''plus-circle'', budgetLimit_c = 0\<rparr>,
        \<lparr>id_c = generateId rt 5, name_c = ''Food & Dining'', type_c = expense,
         color_c = ''#dc2626'', icon_c = ''utensils'', budgetLimit_c = 500\<rparr>,
        \<lparr>id_c = generateId rt 6, name_c = ''Transportation'', type_c = expense,
         color_c = ''#ea580c'', icon_c = ''car'', budgetLimit_c = 200\<rparr>,
        \<lparr>id_c = generateId rt 7, name_c = ''Shopping'', type_c = expense,
         color_c = ''#d97706'', icon_c = ''shopping-bag'', budgetLimit_c = 300\<rparr>,
        \<lparr>id_c = generateId rt 8, name_c = ''Entertainment'', type_c = expense,
         color_c = ''#ca8a04'', icon_c = ''film'', budgetLimit_c = 150\<rparr>,
        \<lparr>id_c = generateId rt 9, name_c = ''Bills & Utilities'', type_c = expense,
         color_c = ''#65a30d'', icon_c = ''file-text'', budgetLimit_c = 400\<rparr>,
        \<lparr>id_c = generateId rt 10, name_c = ''Healthcare'', type_c = expense,
         color_c = ''#16a34a'', icon_c = ''heart'', budgetLimit_c = 200\<rparr>,
        \<lparr>id_c = generateId rt 11, name_c = ''Education'', type_c = expense,
         color_c = ''#0891b2'', icon_c = ''book'', budgetLimit_c = 100\<rparr>,
        \<lparr>id_c = generateId rt 12, name_c = ''Travel'', type_c = expense,
         color_c = ''#0284c7'', icon_c = ''map-pin'', budgetLimit_c = 300\<rparr>,
        \<lparr>id_c = generateId rt 13, name_c = ''Other'', type_c = expense,
         color_c = ''#7c3aed'', icon_c = ''more-horizontal'', budgetLimit_c = 100\<rparr>]"
  by (simp add: defaultCategories_def withIds_def DEFAULT_INCOME_CATEGORIES_def
      DEFAULT_EXPENSE_CATEGORIES_def mkCategory_def eval_nat_numeral)

text \<open>
  Claim C10. When the medium accepts the \<open>multiRemove\<close>, clearAll succeeds and leaves
  all six keys absent: the four list reads return the empty list, getSettings returns
  nothing and the marker is gone. An initialize that follows (with its requests accepted)
  therefore seeds again: afterwards the categories read as the five default income
  categories followed by the nine default expense categories, each with a generated id,
  the settings read as the default settings, and the marker is \<open>'true'\<close>.
\<close>

theorem clearAll_rearms_bootstrap:
  assumes "\<not> multiRemove_rejects m"
  shows "clearAll m st = Inr emptyStorage
     \<and> emptyStorage = \<lparr>TRANSACTIONS = Absent, CATEGORIES = Absent, NOTES = Absent,
                         BUDGETS = Absent, SETTINGS = Absent, INITIALIZED = None\<rparr>
     \<and> getTransactions r emptyStorage = []
     \<and> getCategories r emptyStorage = []
     \<and> getNotes r emptyStorage = []
     \<and> getBudgets r emptyStorage = []
     \<and> getSettings r emptyStorage = None
     \<and> INITIALIZED emptyStorage = None
     \<and> (\<not> getItem_rejects h K_INITIALIZED \<and> \<not> setItem_rejects h K_CATEGORIES
          \<and> \<not> setItem_rejects h K_SETTINGS \<and> \<not> setItem_rejects h K_INITIALIZED
          \<and> \<not> getItem_rejects h K_CATEGORIES \<and> \<not> getItem_rejects h K_SETTINGS
        \<longrightarrow> initialize h rt emptyStorage =
              emptyStorage\<lparr>CATEGORIES := Json (defaultCategories rt),
                SETTINGS := Json defaultSettings, INITIALIZED := Some ''true''\<rparr>
          \<and> getCategories h (initialize h rt emptyStorage) =
              [\<lparr>id_c = generateId rt 0, name_c = ''Salary'', type_c = income,
         color_c = ''#16a34a'', icon_c = ''briefcase'', budgetLimit_c = 0\<rparr>,
               \<lparr>id_c = generateId rt 1, name_c = ''Freelance'', type_c = income,
         color_c = ''#059669'', icon_c = ''laptop'', budgetLimit_c = 0\<rparr>,
               \<lparr>id_c = generateId rt 2, name_c = ''Investment'', type_c = income,
         color_c = ''#0d9488'', icon_c = ''trending-up'', budgetLimit_c = 0\<rparr>,
               \<lparr>id_c = generateId rt 3, name_c = ''Gift'', type_c = income,
         color_c = ''#0891b2'', icon_c = ''gift'', budgetLimit_c = 0\<rparr>,
               \<lparr>id_c = generateId rt 4, name_c = ''Other'', type_c = income,
         color_c = ''#0284c7'', icon_c = ''plus-circle'', budgetLimit_c = 0\<rparr>,
               \<lparr>id_c = generateId rt 5, name_c = ''Food & Dining'', type_c = expense,
         color_c = ''#dc2626'', icon_c = ''utensils'', budgetLimit_c = 500\<rparr>,
               \<lparr>id_c = generateId rt 6, name_c = ''Transportation'', type_c = expense,
         color_c = ''#ea580c'', icon_c = ''car'', budgetLimit_c = 200\<rparr>,
               \<lparr>id_c = generateId rt 7, name_c = ''Shopping'', type_c = expense,
         color_c = ''#d97706'', icon_c = ''shopping-bag'', budgetLimit_c = 300\<rparr>,
               \<lparr>id_c = generateId rt 8, name_c = ''Entertainment'', type_c = expense,
         color_c = ''#ca8a04'', icon_c = ''film'', budgetLimit_c = 150\<rparr>,
               \<lparr>id_c = generateId rt 9, name_c = ''Bills & Utilities'', type_c = expense,
         color_c = ''#65a30d'', icon_c = ''file-text'', budgetLimit_c = 400\<rparr>,
               \<lparr>id_c = generateId rt 10, name_c = ''Healthcare'', type_c = expense,
         color_c = ''#16a34a'', icon_c = ''heart'', budgetLimit_c = 200\<rparr>,
               \<lparr>id_c = generateId rt 11, name_c = ''Education'', type_c = expense,
         color_c = ''#0891b2'', icon_c = ''book'', budgetLimit_c = 100\<rparr>,
               \<lparr>id_c = generateId rt 12, name_c = ''Travel'', type_c = expense,
         color_c = ''#0284c7'', icon_c = ''map-pin'', budgetLimit_c = 300\<rparr>,
               \<lparr>id_c = generateId rt 13, name_c = ''Other'', type_c = expense,
         color_c = ''#7c3aed'', icon_c = ''more-horizontal'', budgetLimit_c = 100\<rparr>]
          \<and> getSettings h (initialize h rt emptyStorage) =
              Some \<lparr>currency = ''USD'', dateFormat = ''MM/DD/YYYY'', theme = system,
          notificationsEnabled = True, budgetAlerts = True, dailySummary = True\<rparr>
          \<and> INITIALIZED (initialize h rt emptyStorage) = Some ''true'')"
proof -
  have cleared: "clearAll m st = Inr emptyStorage"
    using assms by (simp add: clearAll_def emptyStorage_def)
  have empty: "emptyStorage = \<lparr>TRANSACTIONS = Absent, CATEGORIES = Absent, NOTES = Absent,
                         BUDGETS = Absent, SETTINGS = Absent, INITIALIZED = None\<rparr>"
    by (rule emptyStorage_def)
  have reads: "getTransactions r emptyStorage = []" "getCategories r emptyStorage = []"
    "getNotes r emptyStorage = []" "getBudgets r emptyStorage = []"
    "getSettings r emptyStorage = None"
    by (simp_all add: getTransactions_def getCategories_def getNotes_def getBudgets_def
        getSettings_def readList_def getItem_def emptyStorage_def)
  have marker: "INITIALIZED emptyStorage = None"
    by (simp add: emptyStorage_def)
  have unmarked: "\<not> truthyString (INITIALIZED emptyStorage)"
    by (simp add: marker truthyString_def)
  have seeds: "\<not> getItem_rejects h K_INITIALIZED \<and> \<not> setItem_rejects h K_CATEGORIES
          \<and> \<not> setItem_rejects h K_SETTINGS \<and> \<not> setItem_rejects h K_INITIALIZED
          \<and> \<not> getItem_rejects h K_CATEGORIES \<and> \<not> getItem_rejects h K_SETTINGS
        \<longrightarrow> initialize h rt emptyStorage =
              emptyStorage\<lparr>CATEGORIES := Json (defaultCategories rt),
                SETTINGS := Json defaultSettings, INITIALIZED := Some ''true''\<rparr>
          \<and> getCategories h (initialize h rt emptyStorage) =
              [\<lparr>id_c = generateId rt 0, name_c = ''Salary'', type_c = income,
         color_c = ''#16a34a'', icon_c = ''briefcase'', budgetLimit_c = 0\<rparr>,
               \<lparr>id_c = generateId rt 1, name_c = ''Freelance'', type_c = income,
         color_c = ''#059669'', icon_c = ''laptop'', budgetLimit_c = 0\<rparr>,
               \<lparr>id_c = generateId rt 2, name_c = ''Investment'', type_c = income,
         color_c = ''#0d9488'', icon_c = ''trending-up'', budgetLimit_c = 0\<rparr>,
               \<lparr>id_c = generateId rt 3, name_c = ''Gift'', type_c = income,
         color_c = ''#0891b2'', icon_c = ''gift'', budgetLimit_c = 0\<rparr>,
               \<lparr>id_c = generateId rt 4, name_c = ''Other'', type_c = income,
         color_c = ''#0284c7'', icon_c = ''plus-circle'', budgetLimit_c = 0\<rparr>,
               \<lparr>id_c = generateId rt 5, name_c = ''Food & Dining'', type_c = expense,
         color_c = ''#dc2626'', icon_c = ''utensils'', budgetLimit_c = 500\<rparr>,
               \<lparr>id_c = generateId rt 6, name_c = ''Transportation'', type_c = expense,
         color_c = ''#ea580c'', icon_c = ''car'', budgetLimit_c = 200\<rparr>,
               \<lparr>id_c = generateId rt 7, name_c = ''Shopping'', type_c = expense,
         color_c = ''#d97706'', icon_c = ''shopping-bag'', budgetLimit_c = 300\<rparr>,
               \<lparr>id_c = generateId rt 8, name_c = ''Entertainment'', type_c = expense,
         color_c = ''#ca8a04'', icon_c = ''film'', budgetLimit_c = 150\<rparr>,
               \<lparr>id_c = generateId rt 9, name_c = ''Bills & Utilities'', type_c = expense,
         color_c = ''#65a30d'', icon_c = ''file-text'', budgetLimit_c = 400\<rparr>,
               \<lparr>id_c = generateId rt 10, name_c = ''Healthcare'', type_c = expense,
         color_c = ''#16a34a'', icon_c = ''heart'', budgetLimit_c = 200\<rparr>,
               \<lparr>id_c = generateId rt 11, name_c = ''Education'', type_c = expense,
         color_c = ''#0891b2'', icon_c = ''book'', budgetLimit_c = 100\<rparr>,
               \<lparr>id_c = generateId rt 12, name_c = ''Travel'', type_c = expense,
         color_c = ''#0284c7'', icon_c = ''map-pin'', budgetLimit_c = 300\<rparr>,
               \<lparr>id_c = generateId rt 13, name_c = ''Other'', type_c = expense,
         color_c = ''#7c3aed'', icon_c = ''more-horizontal'', budgetLimit_c = 100\<rparr>]
          \<and> getSettings h (initialize h rt emptyStorage) =
              Some \<lparr>currency = ''USD'', dateFormat = ''MM/DD/YYYY'', theme = system,
          notificationsEnabled = True, budgetAlerts = True, dailySummary = True\<rparr>
          \<and> INITIALIZED (initialize h rt emptyStorage) = Some ''true''"
  proof (intro impI)
    assume a: "\<not> getItem_rejects h K_INITIALIZED \<and> \<not> setItem_rejects h K_CATEGORIES
          \<and> \<not> setItem_rejects h K_SETTINGS \<and> \<not> setItem_rejects h K_INITIALIZED
          \<and> \<not> getItem_rejects h K_CATEGORIES \<and> \<not> getItem_rejects h K_SETTINGS"
    with unmarked have seeded: "initialize h rt emptyStorage =
              emptyStorage\<lparr>CATEGORIES := Json (defaultCategories rt),
                SETTINGS := Json defaultSettings, INITIALIZED := Some ''true''\<rparr>"
      by (simp add: initialize_seeds)
    have cats: "getCategories h (initialize h rt emptyStorage) = defaultCategories rt"
      using a by (simp add: seeded getCategories_def getItem_def readList_def)
    have sets: "getSettings h (initialize h rt emptyStorage) = Some defaultSettings"
      using a by (simp add: seeded getSettings_def getItem_def)
    have mark: "INITIALIZED (initialize h rt emptyStorage) = Some ''true''"
      by (simp add: seeded)
    from seeded cats sets mark show "initialize h rt emptyStorage =
              emptyStorage\<lparr>CATEGORIES := Json (defaultCategories rt),
                SETTINGS := Json defaultSettings, INITIALIZED := Some ''true''\<rparr>
          \<and> getCategories h (initialize h rt emptyStorage) =
              [\<lparr>id_c = generateId rt 0, name_c = ''Salary'', type_c = income,
         color_c = ''#16a34a'', icon_c = ''briefcase'', budgetLimit_c = 0\<rparr>,
               \<lparr>id_c = generateId rt 1, name_c = ''Freelance'', type_c = income,
         color_c = ''#059669'', icon_c = ''laptop'', budgetLimit_c = 0\<rparr>,
               \<lparr>id_c = generateId rt 2, name_c = ''Investment'', type_c = income,
         color_c = ''#0d9488'', icon_c = ''trending-up'', budgetLimit_c = 0\<rparr>,
               \<lparr>id_c = generateId rt 3, name_c = ''Gift'', type_c = income,
         color_c = ''#0891b2'', icon_c = ''gift'', budgetLimit_c = 0\<rparr>,
               \<lparr>id_c = generateId rt 4, name_c = ''Other'', type_c = income,
         color_c = ''#0284c7'', icon_c = ''plus-circle'', budgetLimit_c = 0\<rparr>,
               \<lparr>id_c = generateId rt 5, name_c = ''Food & Dining'', type_c = expense,
         color_c = ''#dc2626'', icon_c = ''utensils'', budgetLimit_c = 500\<rparr>,
               \<lparr>id_c = generateId rt 6, name_c = ''Transportation'', type_c = expense,
         color_c = ''#ea580c'', icon_c = ''car'', budgetLimit_c = 200\<rparr>,
               \<lparr>id_c = generateId rt 7, name_c = ''Shopping'', type_c = expense,
         color_c = ''#d97706'', icon_c = ''shopping-bag'', budgetLimit_c = 300\<rparr>,
               \<lparr>id_c = generateId rt 8, name_c = ''Entertainment'', type_c = expense,
         color_c = ''#ca8a04'', icon_c = ''film'', budgetLimit_c = 150\<rparr>,
               \<lparr>id_c = generateId rt 9, name_c = ''Bills & Utilities'', type_c = expense,
         color_c = ''#65a30d'', icon_c = ''file-text'', budgetLimit_c = 400\<rparr>,
               \<lparr>id_c = generateId rt 10, name_c = ''Healthcare'', type_c = expense,
         color_c = ''#16a34a'', icon_c = ''heart'', budgetLimit_c = 200\<rparr>,
               \<lparr>id_c = generateId rt 11, name_c = ''Education'', type_c = expense,
         color_c = ''#0891b2'', icon_c = ''book'', budgetLimit_c = 100\<rparr>,
               \<lparr>id_c = generateId rt 12, name_c = ''Travel'', type_c = expense,
         color_c = ''#0284c7'', icon_c = ''map-pin'', budgetLimit_c = 300\<rparr>,
               \<lparr>id_c = generateId rt 13, name_c = ''Other'', type_c = expense,
         color_c = ''#7c3aed'', icon_c = ''more-horizontal'', budgetLimit_c = 100\<rparr>]
          \<and> getSettings h (initialize h rt emptyStorage) =
              Some \<lparr>currency = ''USD'', dateFormat = ''MM/DD/YYYY'', theme = system,
          notificationsEnabled = True, budgetAlerts = True, dailySummary = True\<rparr>
          \<and> INITIALIZED (initialize h rt emptyStorage) = Some ''true''"
      by (simp only: defaultCategories_rows defaultSettings_def)
  qed
  show ?thesis
    by (intro conjI cleared empty reads marker seeds)
qed

theorem clearAll_rearms_bootstrap_witness:
  "\<not> multiRemove_rejects healthy
   \<and> clearAll healthy exampleStorage = Inr emptyStorage
   \<and> getCategories healthy emptyStorage = []
   \<and> getSettings healthy emptyStorage = None
   \<and> map name_c (getCategories healthy (initialize healthy exampleRuntime emptyStorage)) =
        [''Salary'', ''Freelance'', ''Investment'', ''Gift'', ''Other'', ''Food & Dining'', ''Transportation'', ''Shopping'', ''Entertainment'', ''Bills & Utilities'', ''Healthcare'', ''Education'', ''Travel'', ''Other'']
   \<and> map budgetLimit_c (getCategories healthy (initialize healthy exampleRuntime emptyStorage)) =
        [0, 0, 0, 0, 0, 500, 200, 300, 150, 400, 200, 100, 300, 100]
   \<and> map id_c (take 1 (getCategories healthy (initialize healthy exampleRuntime emptyStorage))) =
        [''ltslx1c0k3j9x2'']
   \<and> getSettings healthy (initialize healthy exampleRuntime emptyStorage) =
        Some \<lparr>currency = ''USD'', dateFormat = ''MM/DD/YYYY'', theme = system,
          notificationsEnabled = True, budgetAlerts = True, dailySummary = True\<rparr>
   \<and> INITIALIZED (initialize healthy exampleRuntime emptyStorage) = Some ''true''"
proof -
  have h: "\<not> multiRemove_rejects healthy"
    by (simp add: healthy_simps)
  have ok: "\<not> getItem_rejects healthy K_INITIALIZED \<and> \<not> setItem_rejects healthy K_CATEGORIES
          \<and> \<not> setItem_rejects healthy K_SETTINGS \<and> \<not> setItem_rejects healthy K_INITIALIZED
          \<and> \<not> getItem_rejects healthy K_CATEGORIES \<and> \<not> getItem_rejects healthy K_SETTINGS"
    by (simp add: healthy_simps)
  note inst = clearAll_rearms_bootstrap [OF h, of exampleStorage healthy healthy exampleRuntime]
  from inst have p1: "clearAll healthy exampleStorage = Inr emptyStorage"
    "getCategories healthy emptyStorage = []" "getSettings healthy emptyStorage = None"
    by blast+
  from inst ok have p2: "getCategories healthy (initialize healthy exampleRuntime emptyStorage) =
              [\<lparr>id_c = generateId exampleRuntime 0, name_c = ''Salary'', type_c = income,
         color_c = ''#16a34a'', icon_c = ''briefcase'', budgetLimit_c = 0\<rparr>,
               \<lparr>id_c = generateId exampleRuntime 1, name_c = ''Freelance'', type_c = income,
         color_c = ''#059669'', icon_c = ''laptop'', budgetLimit_c = 0\<rparr>,
               \<lparr>id_c = generateId exampleRuntime 2, name_c = ''Investment'', type_c = income,
         color_c = ''#0d9488'', icon_c = ''trending-up'', budgetLimit_c = 0\<rparr>,
               \<lparr>id_c = generateId exampleRuntime 3, name_c = ''Gift'', type_c = income,
         color_c = ''#0891b2'', icon_c = ''gift'', budgetLimit_c = 0\<rparr>,
               \<lparr>id_c = generateId exampleRuntime 4, name_c = ''Other'', type_c = income,
         color_c = ''#0284c7'', icon_c = ''plus-circle'', budgetLimit_c = 0\<rparr>,
               \<lparr>id_c = generateId exampleRuntime 5, name_c = ''Food & Dining'', type_c = expense,
         color_c = ''#dc2626'', icon_c = ''utensils'', budgetLimit_c = 500\<rparr>,
               \<lparr>id_c = generateId exampleRuntime 6, name_c = ''Transportation'', type_c = expense,
         color_c = ''#ea580c'', icon_c = ''car'', budgetLimit_c = 200\<rparr>,
               \<lparr>id_c = generateId exampleRuntime 7, name_c = ''Shopping'', type_c = expense,
         color_c = ''#d97706'', icon_c = ''shopping-bag'', budgetLimit_c = 300\<rparr>,
               \<lparr>id_c = generateId exampleRuntime 8, name_c = ''Entertainment'', type_c = expense,
         color_c = ''#ca8a04'', icon_c = ''film'', budgetLimit_c = 150\<rparr>,
               \<lparr>id_c = generateId exampleRuntime 9, name_c = ''Bills & Utilities'', type_c = expense,
         color_c = ''#65a30d'', icon_c = ''file-text'', budgetLimit_c = 400\<rparr>,
               \<lparr>id_c = generateId exampleRuntime 10, name_c = ''Healthcare'', type_c = expense,
         color_c = ''#16a34a'', icon_c = ''heart'', budgetLimit_c = 200\<rparr>,
               \<lparr>id_c = generateId exampleRuntime 11, name_c = ''Education'', type_c = expense,
         color_c = ''#0891b2'', icon_c = ''book'', budgetLimit_c = 100\<rparr>,
               \<lparr>id_c = generateId exampleRuntime 12, name_c = ''Travel'', type_c = expense,
         color_c = ''#0284c7'', icon_c = ''map-pin'', budgetLimit_c = 300\<rparr>,
               \<lparr>id_c = generateId exampleRuntime 13, name_c = ''Other'', type_c = expense,
         color_c = ''#7c3aed'', icon_c = ''more-horizontal'', budgetLimit_c = 100\<rparr>]"
    and p3: "getSettings healthy (initialize healthy exampleRuntime emptyStorage) =
        Some \<lparr>currency = ''USD'', dateFormat = ''MM/DD/YYYY'', theme = system,
          notificationsEnabled = True, budgetAlerts = True, dailySummary = True\<rparr>"
    and p4: "INITIALIZED (initialize healthy exampleRuntime emptyStorage) = Some ''true''"
    by blast+
  show ?thesis
    by (simp add: h p1 p2 p3 p4 generateId_example)
qed

section \<open>Budget alerts\<close>

lemma lit_0_8: "round64 (4 / 5) = 3602879701896397 / 4503599627370496"
  by (simp add: round64_eval(1) [where e = "- 53"] roundHalfEven_def)

lemma times_100_0_8: "round64 (90071992547409925 / 1125899906842624) = 80"
  by (simp add: round64_eval(1) [where e = "- 46"] roundHalfEven_def)

lemma below_one:
  "round64 (9007199254740991 / 9007199254740992) = 9007199254740991 / 9007199254740992"
  by (simp add: round64_eval(1) [where e = "- 53"] roundHalfEven_def)

lemma times_100_below_one:
  "round64 (225179981368524775 / 2251799813685248) = 7036874417766399 / 70368744177664"
  by (simp add: round64_eval(1) [where e = "- 46"] roundHalfEven_def)

lemma sumAmounts_binary64: "round64 (sumAmounts ts) = sumAmounts ts"
proof (cases ts rule: rev_cases)
  case Nil
  then show ?thesis
    by (simp add: sumAmounts_def)
next
  case (snoc ys y)
  then show ?thesis
    by (simp add: sumAmounts_def fadd_def round64_idem)
qed

text \<open>The percentage \<open>(currentSpent / budgetLimit) * 100\<close>, rounded twice, reaches 100 exactly
  when the spending reaches the limit: at or above the limit the quotient is at least 1, and
  the largest binary64 value below the limit gives a quotient of at most \<open>1 - 1 / 2 ^ 53\<close>,
  whose product with 100 rounds to \<open>100 - 1 / 2 ^ 46\<close>.\<close>

lemma percentage_reaches_100:
  assumes l: "0 < l" "round64 l = l" and S: "round64 S = S"
  shows "100 \<le> fmul (fdiv S l) 100 \<longleftrightarrow> l \<le> S"
proof
  assume "l \<le> S"
  then have "1 \<le> S / l"
    using l(1) by simp
  then have "round64 1 \<le> round64 (S / l)"
    by (rule round64_mono)
  then have "100 \<le> round64 (S / l) * 100"
    by simp
  then have "round64 100 \<le> round64 (round64 (S / l) * 100)"
    by (rule round64_mono)
  then show "100 \<le> fmul (fdiv S l) 100"
    by (simp add: fmul_def fdiv_def)
next
  assume reached: "100 \<le> fmul (fdiv S l) 100"
  show "l \<le> S"
  proof (rule ccontr)
    assume "\<not> l \<le> S"
    then have less: "S < l"
      by simp
    have "S / l \<le> 9007199254740991 / 9007199254740992"
    proof (cases "0 \<le> S")
      case True
      from binary64_gap [OF True S l(2) less]
      have "S \<le> l * (9007199254740991 / 9007199254740992)"
        by simp
      then show ?thesis
        using l(1) by (simp add: field_simps)
    next
      case False
      then have "S / l \<le> 0"
        using l(1) by (simp add: divide_le_0_iff)
      then show ?thesis
        by linarith
    qed
    then have "round64 (S / l) \<le> round64 (9007199254740991 / 9007199254740992)"
      by (rule round64_mono)
    then have "round64 (S / l) \<le> 9007199254740991 / 9007199254740992"
      by (simp only: below_one)
    then have "round64 (S / l) * 100 \<le> 225179981368524775 / 2251799813685248"
      by simp
    then have "round64 (round64 (S / l) * 100)
        \<le> round64 (225179981368524775 / 2251799813685248)"
      by (rule round64_mono)
    then have "fmul (fdiv S l) 100 \<le> 7036874417766399 / 70368744177664"
      by (simp only: times_100_below_one fmul_def fdiv_def)
    with reached show False
      by simp
  qed
qed

text \<open>The gate of \<open>checkBudgetAlerts\<close>, \<open>budgetLimit * 0.8\<close>, is at most the limit.\<close>

lemma gate_at_most_limit:
  assumes "0 < l" and "round64 l = l"
  shows "fmul l (round64 (8 / 10)) \<le> l"
proof -
  have "l * round64 (4 / 5) \<le> l"
    using assms(1) by (simp add: lit_0_8)
  then have "round64 (l * round64 (4 / 5)) \<le> round64 l"
    by (rule round64_mono)
  then show ?thesis
    by (simp add: fmul_def assms(2))
qed

lemma scheduleBudgetAlert_cases:
  assumes "0 < l" and "round64 l = l" and "round64 S = S"
  shows "scheduleBudgetAlert m st n S l =
     (if alertsEnabled m st then
        (if l \<le> S then [BudgetExceeded n (fsub S l)]
         else if 80 \<le> fmul (fdiv S l) 100 then [BudgetWarning n (fmul (fdiv S l) 100) S l]
         else [])
      else [])"
proof (cases "alertsEnabled m st")
  case False
  then show ?thesis
    by (auto simp: scheduleBudgetAlert_def alertsEnabled_def split: option.splits)
next
  case True
  then obtain s where s: "getSettings m st = Some s" "notificationsEnabled s" "budgetAlerts s"
    by (auto simp: alertsEnabled_def split: option.splits)
  have "scheduleBudgetAlert m st n S l =
      (if 100 \<le> fmul (fdiv S l) 100 then [BudgetExceeded n (fsub S l)]
       else if 80 \<le> fmul (fdiv S l) 100 then [BudgetWarning n (fmul (fdiv S l) 100) S l]
       else [])"
    by (simp add: scheduleBudgetAlert_def s Let_def)
  then show ?thesis
    using True by (simp only: percentage_reaches_100 [OF assms] if_True)
qed

lemma example_food_spent:
  "monthlySpent [lunch, groceries, salary] 1710504000000 foodCategory = 80"
  by (simp add: monthlySpent_def sumAmounts_def fadd_def lunch_def groceries_def salary_def
      foodCategory_def mkCategory_def example_months)

lemma example_food_percentage: "fmul (fdiv 80 100) 100 = 80"
  by (simp add: fmul_def fdiv_def lit_0_8 times_100_0_8)

lemma example_food_gate: "fmul 100 (round64 (4 / 5)) = 80"
  by (simp add: fmul_def lit_0_8 times_100_0_8)

text \<open>
  Claim C6, as amended. The budget check takes the categories with a budget limit
  strictly above 0 and, for each, adds up in binary64 arithmetic, in stored order and
  starting from 0, the amounts of the transactions that are expenses, carry the category's
  name as their category string, and are dated in the calendar month and year of the
  current instant. Provided the stored settings can be read and have both
  \<open>notificationsEnabled\<close> and \<open>budgetAlerts\<close> on, it schedules for that category an exceeded
  alert, carrying the rounded excess, exactly when that sum is at least the limit; a
  warning alert exactly when the sum is below the limit, is at least the rounded product
  of the limit with 0.8, and the percentage the code computes, the rounded quotient of sum
  and limit times 100, rounded again, is at least 80; and nothing otherwise. With the
  settings missing or either switch off it schedules nothing. The budget limits are
  binary64 values, as every number of the program is.
\<close>

theorem checkBudgetAlerts_thresholds:
  assumes "\<forall>c \<in> set (getCategories m st). round64 (budgetLimit_c c) = budgetLimit_c c"
  shows "checkBudgetAlerts m now st =
     concat (map (\<lambda>c.
        let spent = foldl (\<lambda>sum t. fadd sum (amount_t t)) 0
                      (filter (\<lambda>t. type_t t = expense \<and>
                                     category_t t = name_c c \<and>
                                     getMonth (date_t t) = getMonth now \<and>
                                     getFullYear (date_t t) = getFullYear now)
                         (getTransactions m st));
            limit = budgetLimit_c c;
            percentage = fmul (fdiv spent limit) 100
        in if 0 < limit \<and> alertsEnabled m st then
             (if limit \<le> spent then [BudgetExceeded (name_c c) (fsub spent limit)]
              else if fmul limit (round64 (8 / 10)) \<le> spent \<and> 80 \<le> percentage then
                [BudgetWarning (name_c c) percentage spent limit]
              else [])
           else [])
       (getCategories m st))"
proof -
  have step: "(if 0 < budgetLimit_c c then
          (if fmul (budgetLimit_c c) (round64 (8 / 10)) \<le> monthlySpent ts now c then
             scheduleBudgetAlert m st (name_c c) (monthlySpent ts now c) (budgetLimit_c c)
           else [])
        else []) =
       (if 0 < budgetLimit_c c \<and> alertsEnabled m st then
          (if budgetLimit_c c \<le> monthlySpent ts now c then
             [BudgetExceeded (name_c c) (fsub (monthlySpent ts now c) (budgetLimit_c c))]
           else if fmul (budgetLimit_c c) (round64 (8 / 10)) \<le> monthlySpent ts now c \<and>
                   80 \<le> fmul (fdiv (monthlySpent ts now c) (budgetLimit_c c)) 100 then
             [BudgetWarning (name_c c)
                (fmul (fdiv (monthlySpent ts now c) (budgetLimit_c c)) 100)
                (monthlySpent ts now c) (budgetLimit_c c)]
           else [])
        else [])"
    if binary64: "round64 (budgetLimit_c c) = budgetLimit_c c" for c ts
  proof (cases "0 < budgetLimit_c c")
    case True
    have spent: "round64 (monthlySpent ts now c) = monthlySpent ts now c"
      by (simp add: monthlySpent_def sumAmounts_binary64)
    have gate: "fmul (budgetLimit_c c) (round64 (8 / 10)) \<le> monthlySpent ts now c"
      if "budgetLimit_c c \<le> monthlySpent ts now c"
      using gate_at_most_limit [OF True binary64] that by simp
    show ?thesis
      using True gate by (auto simp: scheduleBudgetAlert_cases [OF True binary64 spent])
  next
    case False
    then show ?thesis
      by simp
  qed
  have "map (\<lambda>category.
          if 0 < budgetLimit_c category then
            (if fmul (budgetLimit_c category) (round64 (8 / 10))
                  \<le> monthlySpent (getTransactions m st) now category then
               scheduleBudgetAlert m st (name_c category)
                 (monthlySpent (getTransactions m st) now category) (budgetLimit_c category)
             else [])
          else []) (getCategories m st) =
        map (\<lambda>c.
          if 0 < budgetLimit_c c \<and> alertsEnabled m st then
            (if budgetLimit_c c \<le> monthlySpent (getTransactions m st) now c then
               [BudgetExceeded (name_c c)
                  (fsub (monthlySpent (getTransactions m st) now c) (budgetLimit_c c))]
             else if fmul (budgetLimit_c c) (round64 (8 / 10))
                       \<le> monthlySpent (getTransactions m st) now c \<and>
                     80 \<le> fmul (fdiv (monthlySpent (getTransactions m st) now c)
                                   (budgetLimit_c c)) 100 then
               [BudgetWarning (name_c c)
                  (fmul (fdiv (monthlySpent (getTransactions m st) now c) (budgetLimit_c c)) 100)
                  (monthlySpent (getTransactions m st) now c) (budgetLimit_c c)]
             else [])
          else []) (getCategories m st)"
  proof (rule map_cong [OF refl])
    fix c
    assume "c \<in> set (getCategories m st)"
    with assms have "round64 (budgetLimit_c c) = budgetLimit_c c"
      by simp
    then show "(if 0 < budgetLimit_c c then
            (if fmul (budgetLimit_c c) (round64 (8 / 10))
                  \<le> monthlySpent (getTransactions m st) now c then
               scheduleBudgetAlert m st (name_c c)
                 (monthlySpent (getTransactions m st) now c) (budgetLimit_c c)
             else [])
          else []) =
          (if 0 < budgetLimit_c c \<and> alertsEnabled m st then
            (if budgetLimit_c c \<le> monthlySpent (getTransactions m st) now c then
               [BudgetExceeded (name_c c)
                  (fsub (monthlySpent (getTransactions m st) now c) (budgetLimit_c c))]
             else if fmul (budgetLimit_c c) (round64 (8 / 10))
                       \<le> monthlySpent (getTransactions m st) now c \<and>
                     80 \<le> fmul (fdiv (monthlySpent (getTransactions m st) now c)
                                   (budgetLimit_c c)) 100 then
               [BudgetWarning (name_c c)
                  (fmul (fdiv (monthlySpent (getTransactions m st) now c) (budgetLimit_c c)) 100)
                  (monthlySpent (getTransactions m st) now c) (budgetLimit_c c)]
             else [])
          else [])"
      by (rule step)
  qed
  then show ?thesis
    unfolding checkBudgetAlerts_def Let_def monthlySpent_def sumAmounts_def
    by (rule arg_cong [where f = concat])
qed

theorem checkBudgetAlerts_thresholds_witness:
  "getCategories healthy exampleStorage = [foodCategory]
   \<and> round64 (budgetLimit_c foodCategory) = budgetLimit_c foodCategory
   \<and> 0 < budgetLimit_c foodCategory
   \<and> alertsEnabled healthy exampleStorage
   \<and> checkBudgetAlerts healthy 1710504000000 exampleStorage = [BudgetWarning ''Food'' 80 80 100]"
proof -
  have on: "alertsEnabled healthy exampleStorage"
    by (simp add: alertsEnabled_def getSettings_def getItem_def healthy_simps
        exampleStorage_def defaultSettings_def)
  have cats: "getCategories healthy exampleStorage = [foodCategory]"
    by (simp add: getCategories_def getItem_def healthy_simps readList_def exampleStorage_def)
  have food: "budgetLimit_c foodCategory = 100" "name_c foodCategory = ''Food''"
    by (simp_all add: foodCategory_def mkCategory_def)
  have binary64: "\<forall>c \<in> set (getCategories healthy exampleStorage).
      round64 (budgetLimit_c c) = budgetLimit_c c"
    by (simp add: cats food)
  note spent = example_food_spent [unfolded monthlySpent_def sumAmounts_def]
  note inst = checkBudgetAlerts_thresholds [OF binary64, of 1710504000000]
  have "checkBudgetAlerts healthy 1710504000000 exampleStorage = [BudgetWarning ''Food'' 80 80 100]"
    unfolding inst Let_def cats exampleStorage_read list.map concat.simps spent
    by (simp add: on food example_food_percentage example_food_gate)
  then show ?thesis
    by (simp add: on cats food)
qed

text \<open>
  Claim C6 as stated fails: with the budget alerts switched off in the settings, a
  category whose spending of the month is 80 against a limit of 100 raises no alert.
\<close>

theorem checkBudgetAlerts_silent_when_disabled:
  "budgetLimit_c foodCategory = 100
   \<and> getTransactions healthy alertsOffStorage = [lunch, groceries, salary]
   \<and> monthlySpent [lunch, groceries, salary] 1710504000000 foodCategory = 80
   \<and> getCategories healthy alertsOffStorage = [foodCategory]
   \<and> checkBudgetAlerts healthy 1710504000000 alertsOffStorage = []"
proof -
  have txs: "getTransactions healthy alertsOffStorage = [lunch, groceries, salary]"
    by (simp add: getTransactions_def getItem_def healthy_simps readList_def
        alertsOffStorage_def exampleStorage_def)
  have cats: "getCategories healthy alertsOffStorage = [foodCategory]"
    by (simp add: getCategories_def getItem_def healthy_simps readList_def
        alertsOffStorage_def exampleStorage_def)
  have food: "budgetLimit_c foodCategory = 100" "name_c foodCategory = ''Food''"
    by (simp_all add: foodCategory_def mkCategory_def)
  have off: "getSettings healthy alertsOffStorage = Some (defaultSettings\<lparr>budgetAlerts := False\<rparr>)"
    by (simp add: getSettings_def getItem_def healthy_simps alertsOffStorage_def)
  have "checkBudgetAlerts healthy 1710504000000 alertsOffStorage = []"
    by (simp add: checkBudgetAlerts_def txs cats food example_food_spent
        scheduleBudgetAlert_def off)
  then show ?thesis
    by (simp add: txs cats food example_food_spent)
qed

section \<open>Monthly trend\<close>

lemma monthlyTrend_points:
  "monthlyTrend ts now =
     [monthPoint ts now 5, monthPoint ts now 4, monthPoint ts now 3,
      monthPoint ts now 2, monthPoint ts now 1, monthPoint ts now 0]"
  by (simp add: monthlyTrend_def eval_nat_numeral)

lemma monthlyTrend_length: "length (monthlyTrend ts now) = 6"
  by (simp add: monthlyTrend_points)

text \<open>The six months that end with March 2024: the day numbers of their first days, and
  the time values of the two bounds that the loop computes for each.\<close>

lemma civilFromDays_19631: "civilFromDays 19631 = (2023, 10, 1)"
  unfolding civilFromDays_def by (simp only: Let_def) simp

lemma civilFromDays_19662: "civilFromDays 19662 = (2023, 11, 1)"
  unfolding civilFromDays_def by (simp only: Let_def) simp

lemma civilFromDays_19692: "civilFromDays 19692 = (2023, 12, 1)"
  unfolding civilFromDays_def by (simp only: Let_def) simp

lemma civilFromDays_19723: "civilFromDays 19723 = (2024, 1, 1)"
  unfolding civilFromDays_def by (simp only: Let_def) simp

lemma civilFromDays_19754: "civilFromDays 19754 = (2024, 2, 1)"
  unfolding civilFromDays_def by (simp only: Let_def) simp

lemma trend_dates:
  "newDate 2024 (- 3) 1 = 1696118400000"
  "newDate 2024 (- 2) 1 = 1698796800000"
  "newDate 2024 (- 1) 1 = 1701388800000"
  "newDate 2024 0 1 = 1704067200000"
  "newDate 2024 1 1 = 1706745600000"
  "newDate 2024 2 1 = 1709251200000"
  by (simp_all add: newDate_def daysFromCivil_def msPerDay_def)

lemma trend_months:
  "getFullYear 1696118400000 = 2023" "getMonth 1696118400000 = 9"
  "getFullYear 1698796800000 = 2023" "getMonth 1698796800000 = 10"
  "getFullYear 1701388800000 = 2023" "getMonth 1701388800000 = 11"
  "getFullYear 1704067200000 = 2024" "getMonth 1704067200000 = 0"
  "getFullYear 1706745600000 = 2024" "getMonth 1706745600000 = 1"
  "getFullYear 1709251200000 = 2024" "getMonth 1709251200000 = 2"
  by (simp_all add: getFullYear_def getMonth_def msPerDay_def
      civilFromDays_19631 civilFromDays_19662 civilFromDays_19692
      civilFromDays_19723 civilFromDays_19754 civilFromDays_19783)

lemma trend_bounds:
  "newDate 2023 9 1 = 1696118400000" "newDate 2023 10 0 = 1698710400000"
  "newDate 2023 10 1 = 1698796800000" "newDate 2023 11 0 = 1701302400000"
  "newDate 2023 11 1 = 1701388800000" "newDate 2023 12 0 = 1703980800000"
  "newDate 2024 0 1 = 1704067200000" "newDate 2024 1 0 = 1706659200000"
  "newDate 2024 1 1 = 1706745600000" "newDate 2024 2 0 = 1709164800000"
  "newDate 2024 2 1 = 1709251200000" "newDate 2024 3 0 = 1711843200000"
  by (simp_all add: newDate_def daysFromCivil_def msPerDay_def)

text \<open>
  Claim C4 on a concrete history. The only transaction is an expense of 50 dated
  2024-02-29 10:00, a day of February 2024, and the reference instant is 2024-03-15
  12:00. The trend has its six points, October to March, but the point of February
  shows no expense: the upper bound \<open>monthEnd\<close> is the midnight that begins the last
  day of the month, so a transaction later on that day is outside [monthStart, monthEnd].
\<close>

theorem monthlyTrend_misses_last_day:
  "getFullYear (date_t leapDayLunch) = 2024 \<and> getMonth (date_t leapDayLunch) = 1
   \<and> type_t leapDayLunch = expense \<and> amount_t leapDayLunch = 50
   \<and> monthlyTrend [leapDayLunch] 1710504000000 =
       [\<lparr>month_md = ''Oct'', income_md = 0, expenses_md = 0\<rparr>,
        \<lparr>month_md = ''Nov'', income_md = 0, expenses_md = 0\<rparr>,
        \<lparr>month_md = ''Dec'', income_md = 0, expenses_md = 0\<rparr>,
        \<lparr>month_md = ''Jan'', income_md = 0, expenses_md = 0\<rparr>,
        \<lparr>month_md = ''Feb'', income_md = 0, expenses_md = 0\<rparr>,
        \<lparr>month_md = ''Mar'', income_md = 0, expenses_md = 0\<rparr>]"
proof -
  have "civilFromDays 19782 = (2024, 2, 29)"
    unfolding civilFromDays_def by (simp only: Let_def) simp
  then have feb: "getFullYear (date_t leapDayLunch) = 2024" "getMonth (date_t leapDayLunch) = 1"
    by (simp_all add: leapDayLunch_def getFullYear_def getMonth_def msPerDay_def)
  have points:
    "monthPoint [leapDayLunch] 1710504000000 5 = \<lparr>month_md = ''Oct'', income_md = 0, expenses_md = 0\<rparr>"
    "monthPoint [leapDayLunch] 1710504000000 4 = \<lparr>month_md = ''Nov'', income_md = 0, expenses_md = 0\<rparr>"
    "monthPoint [leapDayLunch] 1710504000000 3 = \<lparr>month_md = ''Dec'', income_md = 0, expenses_md = 0\<rparr>"
    "monthPoint [leapDayLunch] 1710504000000 2 = \<lparr>month_md = ''Jan'', income_md = 0, expenses_md = 0\<rparr>"
    "monthPoint [leapDayLunch] 1710504000000 1 = \<lparr>month_md = ''Feb'', income_md = 0, expenses_md = 0\<rparr>"
    "monthPoint [leapDayLunch] 1710504000000 0 = \<lparr>month_md = ''Mar'', income_md = 0, expenses_md = 0\<rparr>"
    by (simp_all add: monthPoint_def example_months trend_dates trend_months trend_bounds
        monthShort_def totalOfType_def sumAmounts_def leapDayLunch_def)
  have trend: "monthlyTrend [leapDayLunch] 1710504000000 =
       [\<lparr>month_md = ''Oct'', income_md = 0, expenses_md = 0\<rparr>,
        \<lparr>month_md = ''Nov'', income_md = 0, expenses_md = 0\<rparr>,
        \<lparr>month_md = ''Dec'', income_md = 0, expenses_md = 0\<rparr>,
        \<lparr>month_md = ''Jan'', income_md = 0, expenses_md = 0\<rparr>,
        \<lparr>month_md = ''Feb'', income_md = 0, expenses_md = 0\<rparr>,
        \<lparr>month_md = ''Mar'', income_md = 0, expenses_md = 0\<rparr>]"
    unfolding monthlyTrend_points points by (rule refl)
  have "type_t leapDayLunch = expense" "amount_t leapDayLunch = 50"
    by (simp_all add: leapDayLunch_def)
  with feb trend show ?thesis
    by blast
qed

text \<open>For contrast, an expense in the middle of the current month is counted: the
  history of the example data gives March the expenses 50 + 30 and the income 1000.\<close>

lemma monthlyTrend_counts_mid_month:
  "monthPoint [lunch, groceries, salary] 1710504000000 0 =
     \<lparr>month_md = ''Mar'', income_md = 1000, expenses_md = 80\<rparr>"
  by (simp add: monthPoint_def example_months trend_dates trend_months trend_bounds
      monthShort_def totalOfType_def sumAmounts_def fadd_def lunch_def groceries_def
      salary_def)

end
